theory Spec2Isabelle
  imports Complex_Main
begin

section \<open>JavaScript values and errors\<close>

text \<open>
  The amounts of the engine (principal, rates, repayments, balances) are JavaScript
  numbers; they are modelled as real numbers, so every statement below is one of exact
  arithmetic. Only the \<open>period\<close> handed to a constructor is modelled as an arbitrary
  JavaScript value, since \<open>SummaryItem\<close> inspects it.
\<close>

datatype js_number = Finite real | PosInfinity | NegInfinity | NaN

datatype js_value = JUndefined | JNull | JNumber js_number | JString string

datatype js_error = Error string | TypeError string

text \<open>lodash's \<open>_.isUndefined\<close> and \<open>_.isNaN\<close>; the latter holds of the number NaN only.\<close>

definition isUndefined :: "js_value \<Rightarrow> bool" where
  "isUndefined v = (v = JUndefined)"

definition isNaN :: "js_value \<Rightarrow> bool" where
  "isNaN v = (v = JNumber NaN)"

text \<open>\<open>x || 0\<close> on an optional numeric field: an absent field and the number 0 both give 0.\<close>

definition orZero :: "real option \<Rightarrow> real" where
  "orZero x = (case x of None \<Rightarrow> 0 | Some v \<Rightarrow> v)"

text \<open>\<open>_.last\<close> followed by a property read: on an empty array the read throws.\<close>

definition lastItem :: "'a list \<Rightarrow> js_error + 'a" where
  "lastItem xs = (if xs = [] then Inl (TypeError ''Cannot read property of undefined'')
                  else Inr (last xs))"

text \<open>\<open>Array.prototype.reduce\<close> without an initial value.\<close>

fun reduce :: "('a \<Rightarrow> 'a \<Rightarrow> 'a) \<Rightarrow> 'a list \<Rightarrow> js_error + 'a" where
  "reduce f [] = Inl (TypeError ''Reduce of empty array with no initial value'')"
| "reduce f (x # xs) = Inr (foldl f x xs)"

section \<open>The formula library\<close>

text \<open>
  Modelled from the spec: the annuity payment \<open>CalculatorEngineMath.pmt\<close> of the external
  package financial-calculator-engine, which is not part of the sources. It is the level
  payment that amortizes a principal over a number of periods at a rate per period, with
  \<open>annuityPayment P 0 n = P / n\<close> and \<open>annuityPayment P r 1 = P * (1 + r)\<close>. The engines
  below take their payment function as a parameter; this one is the function they are
  given where a statement is about the amounts themselves.
\<close>

definition annuityPayment :: "real \<Rightarrow> real \<Rightarrow> real \<Rightarrow> real" where
  "annuityPayment pv rate n =
     (if rate = 0 then pv / n
      else pv * (rate * (1 + rate) powr n) / ((1 + rate) powr n - 1))"

section \<open>The legacy engine of src/index.js\<close>

record LoanContext =
  principal :: real
  interestRate :: real
  interestRateFrequency :: real
  "term" :: real
  termFrequency :: real
  repaymentFrequency :: real

definition getEffInterestRate :: "LoanContext \<Rightarrow> real" where
  "getEffInterestRate c = interestRate c * interestRateFrequency c / repaymentFrequency c"

definition getEffTerm :: "LoanContext \<Rightarrow> real" where
  "getEffTerm c = term c / termFrequency c * repaymentFrequency c"

record LoanSummaryItem =
  period :: nat
  principalInitialBalance :: real
  principalFinalBalance :: real
  interestPaid :: real
  principalPaid :: real
  pmt :: real

definition newLoanSummaryItem :: "nat \<Rightarrow> LoanSummaryItem" where
  "newLoanSummaryItem periodAt =
     \<lparr> period = periodAt, principalInitialBalance = 0, principalFinalBalance = 0,
       interestPaid = 0, principalPaid = 0, pmt = 0 \<rparr>"

text \<open>
  The legacy engine: its base context, the contexts of the operators active at each
  period (each one the fields it overrides when merged into a context), and the payment
  function of the formula library.
\<close>

record LegacyEngine =
  legacyBaseContext :: LoanContext
  legacyOperatorsAt :: "nat \<Rightarrow> (LoanContext \<Rightarrow> LoanContext) list"
  legacyPmt :: "real \<Rightarrow> real \<Rightarrow> real \<Rightarrow> real"

definition flattenContext :: "LegacyEngine \<Rightarrow> (LoanContext \<Rightarrow> LoanContext) list \<Rightarrow> LoanContext" where
  "flattenContext eng operatorsContextList =
     fold (\<lambda>merge target. merge target) operatorsContextList (legacyBaseContext eng)"

definition getContextAt :: "LegacyEngine \<Rightarrow> nat \<Rightarrow> LoanContext" where
  "getContextAt eng per = flattenContext eng (legacyOperatorsAt eng per)"

text \<open>
  The loop of the legacy \<open>calculate\<close>. \<open>previousSummaryItem\<close> is read from the list from
  the second period on; while it is undefined the principal of the base context is used.
\<close>

function legacyLoop :: "LegacyEngine \<Rightarrow> real \<Rightarrow> nat \<Rightarrow> LoanSummaryItem list \<Rightarrow> LoanSummaryItem list" where
  "legacyLoop eng numberOfPeriods currentPeriod summaryList =
     (if real currentPeriod \<le> numberOfPeriods then
        (let previousPrincipalFinalBalance =
               (if currentPeriod > 1 \<and> summaryList \<noteq> []
                then principalFinalBalance (last summaryList)
                else principal (legacyBaseContext eng));
             currentContext = getContextAt eng currentPeriod;
             rate = getEffInterestRate currentContext;
             numberOfPeriodsLeft = numberOfPeriods - real currentPeriod + 1;
             payment = legacyPmt eng previousPrincipalFinalBalance rate numberOfPeriodsLeft;
             interest = previousPrincipalFinalBalance * rate;
             summaryItem = (newLoanSummaryItem currentPeriod)
               \<lparr> principalInitialBalance := previousPrincipalFinalBalance,
                 pmt := payment,
                 interestPaid := interest,
                 principalPaid := payment - interest,
                 principalFinalBalance :=
                   previousPrincipalFinalBalance - (payment - interest) \<rparr>
         in legacyLoop eng numberOfPeriods (currentPeriod + 1) (summaryList @ [summaryItem]))
      else summaryList)"
  by pat_completeness auto
termination
proof (relation "measure (\<lambda>(eng, numberOfPeriods, currentPeriod, summaryList).
                    nat \<lfloor>numberOfPeriods\<rfloor> + 1 - currentPeriod)")
  show "wf (measure (\<lambda>(eng, numberOfPeriods, currentPeriod, summaryList).
                    nat \<lfloor>numberOfPeriods\<rfloor> + 1 - currentPeriod))"
    by simp
next
  fix eng :: LegacyEngine and numberOfPeriods :: real and currentPeriod :: nat
    and summaryList :: "LoanSummaryItem list"
  assume "real currentPeriod \<le> numberOfPeriods"
  then have "currentPeriod \<le> nat \<lfloor>numberOfPeriods\<rfloor>"
    by (simp add: le_nat_floor)
  then show "\<And>x xa xb xc xd xe xf.
       ((eng, numberOfPeriods, currentPeriod + 1, summaryList @ [xf]),
        eng, numberOfPeriods, currentPeriod, summaryList)
       \<in> measure (\<lambda>(eng, numberOfPeriods, currentPeriod, summaryList).
                    nat \<lfloor>numberOfPeriods\<rfloor> + 1 - currentPeriod)"
    by simp
qed

declare legacyLoop.simps [simp del]

datatype LegacyTotals = LegacyTotalsItem LoanSummaryItem | LegacyTotalsSum real real

fun legacyTotalsPmt :: "LegacyTotals \<Rightarrow> real" where
  "legacyTotalsPmt (LegacyTotalsItem s) = pmt s"
| "legacyTotalsPmt (LegacyTotalsSum p i) = p"

fun legacyTotalsInterestPaid :: "LegacyTotals \<Rightarrow> real" where
  "legacyTotalsInterestPaid (LegacyTotalsItem s) = interestPaid s"
| "legacyTotalsInterestPaid (LegacyTotalsSum p i) = i"

definition legacySumTotals :: "LegacyTotals \<Rightarrow> LegacyTotals \<Rightarrow> LegacyTotals" where
  "legacySumTotals previous current =
     LegacyTotalsSum (legacyTotalsPmt previous + legacyTotalsPmt current)
       (legacyTotalsInterestPaid previous + legacyTotalsInterestPaid current)"

record LegacyResults =
  summaryList :: "LoanSummaryItem list"
  legacyTotals :: LegacyTotals

definition legacyCalculate :: "LegacyEngine \<Rightarrow> js_error + LegacyResults" where
  "legacyCalculate eng =
     (let numberOfPeriods = getEffTerm (legacyBaseContext eng);
          items = legacyLoop eng numberOfPeriods 1 []
      in case reduce legacySumTotals (map LegacyTotalsItem items) of
           Inl e \<Rightarrow> Inl e
         | Inr t \<Rightarrow> Inr \<lparr> summaryList = items, legacyTotals = t \<rparr>)"

section \<open>The data model of src/src/index.js\<close>

definition interestOnly :: string where
  "interestOnly = ''IO''"

definition principalAndInterest :: string where
  "principalAndInterest = ''PI''"

text \<open>
  \<open>BaseContext\<close> after \<open>__normalizeValues\<close>: \<open>effInterestRate\<close> and \<open>effTerm\<close> hold what
  the external formula library returned.
\<close>

record BaseContext =
  principal :: real
  interestRate :: real
  interestRateFrequency :: real
  effInterestRate :: real
  "term" :: real
  termFrequency :: real
  effTerm :: real
  repayment :: real
  repaymentType :: string
  repaymentFrequency :: real

text \<open>
  \<open>SummaryItem\<close>'s constructor: the check of the period, shared by \<open>ContextItem\<close> and
  \<open>AmortizationItem\<close>. It returns the period to be stored.
\<close>

definition SummaryItem :: "js_value \<Rightarrow> js_error + js_value" where
  "SummaryItem per =
     (if isUndefined per then Inl (Error ''SummaryItem: `period` is undefined.'')
      else if isNaN per then Inl (Error ''SummaryItem: `period` must be a number.'')
      else Inr per)"

text \<open>
  A \<open>ContextItem\<close> is the period, the fields merged in from the base context, and the
  fields an operator may set (absent until one does).
\<close>

record ContextItem = BaseContext +
  period :: js_value
  fee :: "real option"
  offset :: "real option"
  lumpSum :: "real option"
  effExtraRepayment :: "real option"

definition newContextItem :: "js_value \<Rightarrow> BaseContext \<Rightarrow> js_error + ContextItem" where
  "newContextItem per ctx =
     (case SummaryItem per of
        Inl e \<Rightarrow> Inl e
      | Inr p \<Rightarrow> Inr (BaseContext.extend ctx
            (ContextItem.fields p None None None None)))"

record AmortizationItem =
  period :: js_value
  principalBalance :: real
  interestBalance :: real
  interestPaid :: real
  principalPaid :: real
  repayment :: real

definition newAmortizationItem :: "js_value \<Rightarrow> js_error + AmortizationItem" where
  "newAmortizationItem per =
     (case SummaryItem per of
        Inl e \<Rightarrow> Inl e
      | Inr p \<Rightarrow> Inr \<lparr> period = p, principalBalance = 0, interestBalance = 0,
                       interestPaid = 0, principalPaid = 0, repayment = 0 \<rparr>)"

text \<open>
  \<open>totals\<close> is what \<open>reduce\<close> returns: the single \<open>AmortizationItem\<close> itself when the list
  has one element, and an object with the two sums otherwise.
\<close>

datatype Totals = TotalsItem AmortizationItem | TotalsSum real real

fun totalsRepayment :: "Totals \<Rightarrow> real" where
  "totalsRepayment (TotalsItem a) = AmortizationItem.repayment a"
| "totalsRepayment (TotalsSum r i) = r"

fun totalsInterestPaid :: "Totals \<Rightarrow> real" where
  "totalsInterestPaid (TotalsItem a) = interestPaid a"
| "totalsInterestPaid (TotalsSum r i) = i"

text \<open>An operator's \<open>process(period, context)\<close>, which mutates the context.\<close>

type_synonym Operator = "nat \<Rightarrow> ContextItem \<Rightarrow> ContextItem"

text \<open>
  The engine: its base context, its configuration, the operators active at each period
  (\<open>getOperatorsAt\<close>, of the operator framework) and the annuity payment of the external
  formula library (\<open>CalculatorEngineMath.pmt\<close>).
\<close>

record Engine =
  baseContext :: BaseContext
  isSavingsMode :: bool
  getOperatorsAt :: "nat \<Rightarrow> Operator list"
  mathPmt :: "real \<Rightarrow> real \<Rightarrow> real \<Rightarrow> real"

text \<open>The results held by the engine; \<open>totals\<close> is null until \<open>__endCalculation\<close>.\<close>

record Results =
  totals :: "Totals option"
  contextList :: "ContextItem list"
  amortizationList :: "AmortizationItem list"

section \<open>The operations of src/src/index.js\<close>

text \<open>A period of the loop as the JavaScript number it is.\<close>

definition periodValue :: "nat \<Rightarrow> js_value" where
  "periodValue per = JNumber (Finite (real per))"

text \<open>\<open>__resetResults\<close> and \<open>__calculateInitialPeriod\<close>, called by \<open>__startCalculation\<close>.\<close>

definition resetResults :: Results where
  "resetResults = \<lparr> totals = None, contextList = [], amortizationList = [] \<rparr>"

definition calculateInitialPeriod :: "Engine \<Rightarrow> Results \<Rightarrow> js_error + Results" where
  "calculateInitialPeriod eng st =
     (case newContextItem (periodValue 0) (baseContext eng) of
        Inl e \<Rightarrow> Inl e
      | Inr context \<Rightarrow>
          (case newAmortizationItem (periodValue 0) of
             Inl e \<Rightarrow> Inl e
           | Inr amortization \<Rightarrow>
               Inr (st\<lparr> contextList := contextList st @ [context],
                        amortizationList := amortizationList st @
                          [amortization\<lparr> principalBalance := principal context \<rparr>] \<rparr>)))"

definition startCalculation :: "Engine \<Rightarrow> js_error + Results" where
  "startCalculation eng = calculateInitialPeriod eng resetResults"

text \<open>\<open>__calculateContextAt\<close>: the context of a period, before its repayment is set.\<close>

definition calculateContextAt :: "Engine \<Rightarrow> Results \<Rightarrow> nat \<Rightarrow> js_error + ContextItem" where
  "calculateContextAt eng st per =
     (case newContextItem (periodValue per) (baseContext eng) of
        Inl e \<Rightarrow> Inl e
      | Inr context \<Rightarrow>
          (case lastItem (amortizationList st) of
             Inl e \<Rightarrow> Inl e
           | Inr prevAmortization \<Rightarrow>
               Inr (fold (\<lambda>operator c. operator per c) (getOperatorsAt eng per)
                      (context\<lparr> principal := principalBalance prevAmortization \<rparr>))))"

text \<open>\<open>__calculateRepayment\<close>.\<close>

definition calculateRepayment :: "Engine \<Rightarrow> nat \<Rightarrow> ContextItem \<Rightarrow> real" where
  "calculateRepayment eng per context =
     (let effTermRemaining = effTerm context - real per + 1;
          isInterestOnly = (repaymentType context = interestOnly)
      in if isInterestOnly then principal context * effInterestRate context
         else mathPmt eng (principal context) (effInterestRate context) effTermRemaining)"

text \<open>
  \<open>__calculateAmortizationAt\<close>. The function writes the scheduled repayment into the
  context it is given, so the model returns the updated context with the amortization.
\<close>

definition calculateAmortizationAt ::
  "Engine \<Rightarrow> Results \<Rightarrow> nat \<Rightarrow> ContextItem \<Rightarrow> js_error + ContextItem \<times> AmortizationItem" where
  "calculateAmortizationAt eng st per context =
     (case lastItem (contextList st) of
        Inl e \<Rightarrow> Inl e
      | Inr prevContext \<Rightarrow>
          (let isInitialPeriod = (per = 1);
               hasChangedEffInterestRate =
                 (effInterestRate prevContext \<noteq> effInterestRate context);
               scheduled =
                 (if \<not> isSavingsMode eng \<and> (isInitialPeriod \<or> hasChangedEffInterestRate)
                  then calculateRepayment eng per context
                  else BaseContext.repayment prevContext);
               context' = context\<lparr> BaseContext.repayment := scheduled \<rparr>;
               adjusted = scheduled + orZero (effExtraRepayment context')
                            + orZero (lumpSum context');
               consideredPrincipal = principal context' - orZero (offset context');
               interest = max (consideredPrincipal * effInterestRate context') 0;
               clamped = (if adjusted > principal context'
                          then principal context' + interest else adjusted);
               paid = (if isSavingsMode eng then adjusted else clamped);
               principalPaid' = (if isSavingsMode eng then 0 else clamped - interest);
               principalBalance' =
                 (if isSavingsMode eng then principal context' + adjusted + interest
                  else principal context' - principalPaid')
           in case newAmortizationItem (periodValue per) of
                Inl e \<Rightarrow> Inl e
              | Inr amortization \<Rightarrow>
                  Inr (context',
                       amortization\<lparr> repayment := paid + orZero (fee context'),
                                     interestPaid := interest,
                                     principalPaid := principalPaid',
                                     principalBalance := principalBalance' \<rparr>)))"

text \<open>The two pushes that end an iteration of the loop of \<open>calculate\<close>.\<close>

definition pushPeriod :: "Results \<Rightarrow> ContextItem \<Rightarrow> AmortizationItem \<Rightarrow> Results" where
  "pushPeriod st context amortization =
     st\<lparr> contextList := contextList st @ [context],
         amortizationList := amortizationList st @ [amortization] \<rparr>"

text \<open>The loop of \<open>calculate\<close>, from the period it is about to test.\<close>

function periodLoop :: "Engine \<Rightarrow> nat \<Rightarrow> Results \<Rightarrow> js_error + Results" where
  "periodLoop eng per st =
     (if real per \<le> effTerm (baseContext eng) then
        (case calculateContextAt eng st per of
           Inl e \<Rightarrow> Inl e
         | Inr context \<Rightarrow>
             (case calculateAmortizationAt eng st per context of
                Inl e \<Rightarrow> Inl e
              | Inr (context', amortization) \<Rightarrow>
                  if \<not> isSavingsMode eng \<and> principalBalance amortization \<le> 0
                  then Inr (pushPeriod st context' amortization)
                  else periodLoop eng (per + 1) (pushPeriod st context' amortization)))
      else Inr st)"
  by pat_completeness auto
termination
proof (relation "measure (\<lambda>(eng, per, st). nat \<lfloor>effTerm (baseContext eng)\<rfloor> + 1 - per)")
  show "wf (measure (\<lambda>(eng, per, st). nat \<lfloor>effTerm (baseContext eng)\<rfloor> + 1 - per))"
    by simp
next
  fix eng :: Engine and per :: nat and st :: Results
  assume "real per \<le> effTerm (baseContext eng)"
  then have "per \<le> nat \<lfloor>effTerm (baseContext eng)\<rfloor>"
    by (simp add: le_nat_floor)
  then show "\<And>x2 x y. ((eng, per + 1, pushPeriod st x y), eng, per, st)
        \<in> measure (\<lambda>(eng, per, st). nat \<lfloor>effTerm (baseContext eng)\<rfloor> + 1 - per)"
    by simp
qed

declare periodLoop.simps [simp del]

text \<open>\<open>__calculateTotals\<close>: the reduce over the amortization list, without a seed.\<close>

definition sumTotals :: "Totals \<Rightarrow> Totals \<Rightarrow> Totals" where
  "sumTotals previous current =
     TotalsSum (totalsRepayment previous + totalsRepayment current)
               (totalsInterestPaid previous + totalsInterestPaid current)"

definition calculateTotals :: "Results \<Rightarrow> js_error + Results" where
  "calculateTotals st =
     (case reduce sumTotals (map TotalsItem (amortizationList st)) of
        Inl e \<Rightarrow> Inl e
      | Inr t \<Rightarrow> Inr (st\<lparr> totals := Some t \<rparr>))"

text \<open>
  \<open>__calculateInterestBalance\<close>: the running balance written into every item, in order.
\<close>

fun interestBalancePass :: "bool \<Rightarrow> real \<Rightarrow> AmortizationItem list \<Rightarrow> AmortizationItem list" where
  "interestBalancePass savings balance [] = []"
| "interestBalancePass savings balance (amortization # rest) =
     (let balance' = balance - (if savings then interestPaid amortization * (- 1)
                                else interestPaid amortization)
      in amortization\<lparr> interestBalance := balance' \<rparr>
           # interestBalancePass savings balance' rest)"

text \<open>
  When the list has one element, \<open>totals\<close> is that very object, so it sees the
  \<open>interestBalance\<close> the pass writes into it.
\<close>

definition calculateInterestBalance :: "Engine \<Rightarrow> Results \<Rightarrow> js_error + Results" where
  "calculateInterestBalance eng st =
     (case totals st of
        None \<Rightarrow> Inl (TypeError ''Cannot read property of null'')
      | Some t \<Rightarrow>
          (let interestBalance0 = (if isSavingsMode eng then 0 else totalsInterestPaid t);
               items = interestBalancePass (isSavingsMode eng) interestBalance0
                         (amortizationList st);
               t' = (case (t, items) of
                       (TotalsItem _, amortization # _) \<Rightarrow> TotalsItem amortization
                     | _ \<Rightarrow> t)
           in Inr (st\<lparr> totals := Some t', amortizationList := items \<rparr>)))"

definition endCalculation :: "Engine \<Rightarrow> Results \<Rightarrow> js_error + Results" where
  "endCalculation eng st =
     (case calculateTotals st of
        Inl e \<Rightarrow> Inl e
      | Inr st' \<Rightarrow> calculateInterestBalance eng st')"

text \<open>\<open>calculate\<close>.\<close>

definition calculate :: "Engine \<Rightarrow> js_error + Results" where
  "calculate eng =
     (case startCalculation eng of
        Inl e \<Rightarrow> Inl e
      | Inr st \<Rightarrow>
          (case periodLoop eng 1 st of
             Inl e \<Rightarrow> Inl e
           | Inr st' \<Rightarrow> endCalculation eng st'))"

section \<open>The states of a run\<close>

text \<open>
  \<open>loopState eng per st\<close>: in a run of \<open>calculate\<close>, the engine holds \<open>st\<close> when the loop
  is about to test period \<open>per\<close>. \<open>finalState eng st\<close>: the loop is left with \<open>st\<close>, either
  because the period exceeds the term or through the \<open>break\<close>.
\<close>

inductive loopState :: "Engine \<Rightarrow> nat \<Rightarrow> Results \<Rightarrow> bool" where
  loopStart: "startCalculation eng = Inr st \<Longrightarrow> loopState eng 1 st"
| loopNext: "loopState eng per st \<Longrightarrow> real per \<le> effTerm (baseContext eng) \<Longrightarrow>
     calculateContextAt eng st per = Inr context \<Longrightarrow>
     calculateAmortizationAt eng st per context = Inr (context', amortization) \<Longrightarrow>
     \<not> (\<not> isSavingsMode eng \<and> principalBalance amortization \<le> 0) \<Longrightarrow>
     loopState eng (per + 1) (pushPeriod st context' amortization)"

inductive finalState :: "Engine \<Rightarrow> Results \<Rightarrow> bool" where
  termReached: "loopState eng per st \<Longrightarrow> \<not> real per \<le> effTerm (baseContext eng) \<Longrightarrow>
     finalState eng st"
| paidOff: "loopState eng per st \<Longrightarrow> real per \<le> effTerm (baseContext eng) \<Longrightarrow>
     calculateContextAt eng st per = Inr context \<Longrightarrow>
     calculateAmortizationAt eng st per context = Inr (context', amortization) \<Longrightarrow>
     \<not> isSavingsMode eng \<and> principalBalance amortization \<le> 0 \<Longrightarrow>
     finalState eng (pushPeriod st context' amortization)"

section \<open>Notions used in the statements\<close>

text \<open>
  The contract of the operator framework, which is not part of the sources: an
  operator sets the optional fields of the context (and the effective rate), and leaves
  its period alone.
\<close>

definition operatorsKeepPeriod :: "Engine \<Rightarrow> bool" where
  "operatorsKeepPeriod eng =
     (\<forall>per operator c. operator \<in> set (getOperatorsAt eng per) \<longrightarrow>
        ContextItem.period (operator per c) = ContextItem.period c)"

text \<open>The two lists are index-aligned and start with period 0.\<close>

definition aligned :: "Results \<Rightarrow> bool" where
  "aligned st =
     (length (contextList st) = length (amortizationList st) \<and>
      contextList st \<noteq> [] \<and>
      ContextItem.period (hd (contextList st)) = periodValue 0 \<and>
      period (hd (amortizationList st)) = periodValue 0 \<and>
      (\<forall>i < length (contextList st).
         ContextItem.period (contextList st ! i) = period (amortizationList st ! i)))"

text \<open>
  The scheduled repayment of period \<open>i\<close> in the words of the specification, from the
  context stored for the previous period and the one stored for this period.
\<close>

definition specScheduledRepayment :: "Engine \<Rightarrow> nat \<Rightarrow> ContextItem \<Rightarrow> ContextItem \<Rightarrow> real" where
  "specScheduledRepayment eng i previous current =
     (if \<not> isSavingsMode eng \<and>
         (i = 1 \<or> effInterestRate previous \<noteq> effInterestRate current)
      then (if repaymentType current = interestOnly
            then principal current * effInterestRate current
            else mathPmt eng (principal current) (effInterestRate current)
                   (effTerm current - real i + 1))
      else BaseContext.repayment previous)"

text \<open>
  The balance of an annuity loan after \<open>k\<close> of its \<open>n\<close> periods, in closed form, and the
  entries the two engines compute for period \<open>k\<close> of such a loan.
\<close>

definition annuityBalance :: "real \<Rightarrow> real \<Rightarrow> nat \<Rightarrow> nat \<Rightarrow> real" where
  "annuityBalance pv rate n k =
     pv * ((1 + rate) ^ n - (1 + rate) ^ k) / ((1 + rate) ^ n - 1)"

definition annuityAmortization :: "real \<Rightarrow> real \<Rightarrow> nat \<Rightarrow> nat \<Rightarrow> AmortizationItem" where
  "annuityAmortization pv rate n k =
     \<lparr> period = periodValue k,
       principalBalance = annuityBalance pv rate n k,
       interestBalance = 0,
       interestPaid = annuityBalance pv rate n (k - 1) * rate,
       principalPaid = annuityPayment pv rate (real n) - annuityBalance pv rate n (k - 1) * rate,
       repayment = annuityPayment pv rate (real n) \<rparr>"

definition annuitySummary :: "real \<Rightarrow> real \<Rightarrow> nat \<Rightarrow> nat \<Rightarrow> LoanSummaryItem" where
  "annuitySummary pv rate n k =
     \<lparr> LoanSummaryItem.period = k,
       principalInitialBalance = annuityBalance pv rate n (k - 1),
       principalFinalBalance = annuityBalance pv rate n k,
       LoanSummaryItem.interestPaid = annuityBalance pv rate n (k - 1) * rate,
       LoanSummaryItem.principalPaid =
         annuityPayment pv rate (real n) - annuityBalance pv rate n (k - 1) * rate,
       pmt = annuityPayment pv rate (real n) \<rparr>"

text \<open>
  A loan-mode run on a principal-and-interest loan of \<open>n\<close> whole periods, with a positive
  principal and rate, no operators, and the annuity payment as its payment function; and
  a legacy engine given the same loan.
\<close>

definition annuityLoan :: "Engine \<Rightarrow> nat \<Rightarrow> bool" where
  "annuityLoan eng n =
     (\<not> isSavingsMode eng \<and>
      0 < principal (baseContext eng) \<and>
      0 < effInterestRate (baseContext eng) \<and>
      effTerm (baseContext eng) = real n \<and> 1 \<le> n \<and>
      repaymentType (baseContext eng) = principalAndInterest \<and>
      getOperatorsAt eng = (\<lambda>per. []) \<and>
      mathPmt eng = annuityPayment)"

definition sameLoan :: "LegacyEngine \<Rightarrow> Engine \<Rightarrow> bool" where
  "sameLoan old eng =
     (LoanContext.principal (legacyBaseContext old) = principal (baseContext eng) \<and>
      getEffInterestRate (legacyBaseContext old) = effInterestRate (baseContext eng) \<and>
      getEffTerm (legacyBaseContext old) = effTerm (baseContext eng) \<and>
      legacyOperatorsAt old = (\<lambda>per. []) \<and>
      legacyPmt old = annuityPayment)"

section \<open>Example inputs\<close>

text \<open>Two operators in the shape the engine expects: each sets one optional field.\<close>

definition lumpSumOperator :: "real \<Rightarrow> Operator" where
  "lumpSumOperator amount per context = context\<lparr> lumpSum := Some amount \<rparr>"

definition feeOperator :: "real \<Rightarrow> Operator" where
  "feeOperator amount per context = context\<lparr> fee := Some amount \<rparr>"

text \<open>
  An interest-only loan of 100 at 10 percent per period over 3 periods, with a lump sum
  of 95 in the first period.
\<close>

definition payoffBase :: BaseContext where
  "payoffBase =
     \<lparr> principal = 100, interestRate = 1 / 10, interestRateFrequency = 1,
       effInterestRate = 1 / 10, term = 3, termFrequency = 1, effTerm = 3,
       repayment = 0, repaymentType = interestOnly, repaymentFrequency = 1 \<rparr>"

definition payoffEngine :: Engine where
  "payoffEngine =
     \<lparr> baseContext = payoffBase, isSavingsMode = False,
       getOperatorsAt = (\<lambda>per. if per = 1 then [lumpSumOperator 95] else []),
       mathPmt = annuityPayment \<rparr>"

definition payoffStart :: Results where
  "payoffStart =
     \<lparr> totals = None,
       contextList = [BaseContext.extend payoffBase
                        (ContextItem.fields (periodValue 0) None None None None)],
       amortizationList = [\<lparr> period = periodValue 0, principalBalance = 100,
                             interestBalance = 0, interestPaid = 0, principalPaid = 0,
                             repayment = 0 \<rparr>] \<rparr>"

definition payoffContext :: ContextItem where
  "payoffContext =
     BaseContext.extend payoffBase
       (ContextItem.fields (periodValue 1) None None (Some 95) None)"

definition payoffAmortization :: AmortizationItem where
  "payoffAmortization =
     \<lparr> period = periodValue 1, principalBalance = 0, interestBalance = 0,
       interestPaid = 10, principalPaid = 100, repayment = 110 \<rparr>"

text \<open>
  A principal-and-interest loan of 100 at 50 percent per period over 2 periods, with a
  fee of 5 in the second period; the annuity payment is 90.
\<close>

definition feeBase :: BaseContext where
  "feeBase =
     \<lparr> principal = 100, interestRate = 1 / 2, interestRateFrequency = 1,
       effInterestRate = 1 / 2, term = 2, termFrequency = 1, effTerm = 2,
       repayment = 0, repaymentType = principalAndInterest, repaymentFrequency = 1 \<rparr>"

definition feeEngine :: Engine where
  "feeEngine =
     \<lparr> baseContext = feeBase, isSavingsMode = False,
       getOperatorsAt = (\<lambda>per. if per = 2 then [feeOperator 5] else []),
       mathPmt = annuityPayment \<rparr>"

text \<open>The same loan without operators, and the legacy engine on the same loan.\<close>

definition plainEngine :: Engine where
  "plainEngine =
     \<lparr> baseContext = feeBase, isSavingsMode = False, getOperatorsAt = (\<lambda>per. []),
       mathPmt = annuityPayment \<rparr>"

definition plainLegacy :: LegacyEngine where
  "plainLegacy =
     \<lparr> legacyBaseContext =
         \<lparr> LoanContext.principal = 100, LoanContext.interestRate = 1 / 2,
           LoanContext.interestRateFrequency = 1, LoanContext.term = 2,
           LoanContext.termFrequency = 1, LoanContext.repaymentFrequency = 1 \<rparr>,
       legacyOperatorsAt = (\<lambda>per. []), legacyPmt = annuityPayment \<rparr>"

text \<open>
  A loan of 300 at 100 percent per period over 2 periods (annuity payment 400), for both
  engines.
\<close>

definition steepEngine :: Engine where
  "steepEngine =
     \<lparr> baseContext =
         \<lparr> principal = 300, interestRate = 1, interestRateFrequency = 1,
           effInterestRate = 1, term = 2, termFrequency = 1, effTerm = 2,
           repayment = 0, repaymentType = principalAndInterest, repaymentFrequency = 1 \<rparr>,
       isSavingsMode = False, getOperatorsAt = (\<lambda>per. []), mathPmt = annuityPayment \<rparr>"

definition steepLegacy :: LegacyEngine where
  "steepLegacy =
     \<lparr> legacyBaseContext =
         \<lparr> LoanContext.principal = 300, LoanContext.interestRate = 1,
           LoanContext.interestRateFrequency = 1, LoanContext.term = 2,
           LoanContext.termFrequency = 1, LoanContext.repaymentFrequency = 1 \<rparr>,
       legacyOperatorsAt = (\<lambda>per. []), legacyPmt = annuityPayment \<rparr>"

text \<open>
  A savings plan: 100 to start with, deposits of 10, 10 percent per period, and a term of
  two and a half periods.
\<close>

definition savingsEngine :: Engine where
  "savingsEngine =
     \<lparr> baseContext =
         \<lparr> principal = 100, interestRate = 1 / 10, interestRateFrequency = 1,
           effInterestRate = 1 / 10, term = 5 / 2, termFrequency = 1, effTerm = 5 / 2,
           repayment = 10, repaymentType = principalAndInterest, repaymentFrequency = 1 \<rparr>,
       isSavingsMode = True, getOperatorsAt = (\<lambda>per. []), mathPmt = annuityPayment \<rparr>"

definition savingsResult :: Results where
  "savingsResult =
     \<lparr> totals = Some (TotalsSum 20 22),
       contextList =
         [BaseContext.extend (baseContext savingsEngine)
            (ContextItem.fields (periodValue 0) None None None None),
          BaseContext.extend (baseContext savingsEngine)
            (ContextItem.fields (periodValue 1) None None None None),
          BaseContext.extend ((baseContext savingsEngine)\<lparr> principal := 120 \<rparr>)
            (ContextItem.fields (periodValue 2) None None None None)],
       amortizationList =
         [\<lparr> period = periodValue 0, principalBalance = 100, interestBalance = 0,
            interestPaid = 0, principalPaid = 0, repayment = 0 \<rparr>,
          \<lparr> period = periodValue 1, principalBalance = 120, interestBalance = 10,
            interestPaid = 10, principalPaid = 0, repayment = 10 \<rparr>,
          \<lparr> period = periodValue 2, principalBalance = 142, interestBalance = 22,
            interestPaid = 12, principalPaid = 0, repayment = 10 \<rparr>] \<rparr>"

definition steepResult :: Results where
  "steepResult =
     \<lparr> totals = Some (TotalsSum 600 300),
       contextList =
         [BaseContext.extend (baseContext steepEngine)
            (ContextItem.fields (periodValue 0) None None None None),
          BaseContext.extend ((baseContext steepEngine)\<lparr> BaseContext.repayment := 400 \<rparr>)
            (ContextItem.fields (periodValue 1) None None None None)],
       amortizationList =
         [\<lparr> period = periodValue 0, principalBalance = 300, interestBalance = 300,
            interestPaid = 0, principalPaid = 0, repayment = 0 \<rparr>,
          \<lparr> period = periodValue 1, principalBalance = 0, interestBalance = 0,
            interestPaid = 300, principalPaid = 300, repayment = 600 \<rparr>] \<rparr>"

definition steepLegacyResult :: LegacyResults where
  "steepLegacyResult =
     \<lparr> summaryList =
         [\<lparr> LoanSummaryItem.period = 1, principalInitialBalance = 300,
            principalFinalBalance = 200, LoanSummaryItem.interestPaid = 300,
            LoanSummaryItem.principalPaid = 100, pmt = 400 \<rparr>,
          \<lparr> LoanSummaryItem.period = 2, principalInitialBalance = 200,
            principalFinalBalance = 0, LoanSummaryItem.interestPaid = 200,
            LoanSummaryItem.principalPaid = 200, pmt = 400 \<rparr>],
       legacyTotals = LegacyTotalsSum 800 500 \<rparr>"

section \<open>Properties\<close>

subsection \<open>Constructors, and the calls of one iteration\<close>

lemmas example_defs =
  payoffBase_def payoffEngine_def payoffStart_def payoffContext_def payoffAmortization_def
  feeBase_def feeEngine_def plainEngine_def plainLegacy_def steepEngine_def steepLegacy_def
  savingsEngine_def lumpSumOperator_def feeOperator_def
  interestOnly_def principalAndInterest_def annuityPayment_def

lemma SummaryItem_periodValue [simp]: "SummaryItem (periodValue n) = Inr (periodValue n)"
  by (simp add: SummaryItem_def periodValue_def isUndefined_def isNaN_def)

lemma newAmortizationItem_periodValue [simp]:
  "newAmortizationItem (periodValue n) =
     Inr \<lparr> period = periodValue n, principalBalance = 0, interestBalance = 0,
           interestPaid = 0, principalPaid = 0, repayment = 0 \<rparr>"
  by (simp add: newAmortizationItem_def)

lemma newContextItem_periodValue [simp]:
  "newContextItem (periodValue n) b =
     Inr (BaseContext.extend b (ContextItem.fields (periodValue n) None None None None))"
  by (simp add: newContextItem_def)

lemma lastItem_nonempty [simp]: "xs \<noteq> [] \<Longrightarrow> lastItem xs = Inr (last xs)"
  by (simp add: lastItem_def)

lemma periodValue_inj [simp]: "periodValue m = periodValue n \<longleftrightarrow> m = n"
  by (simp add: periodValue_def)

lemma startCalculation_eq:
  "startCalculation eng =
     Inr \<lparr> totals = None,
           contextList = [BaseContext.extend (baseContext eng)
                            (ContextItem.fields (periodValue 0) None None None None)],
           amortizationList = [\<lparr> period = periodValue 0,
                                 principalBalance = principal (baseContext eng),
                                 interestBalance = 0, interestPaid = 0, principalPaid = 0,
                                 repayment = 0 \<rparr>] \<rparr>"
  by (simp add: startCalculation_def calculateInitialPeriod_def resetResults_def
      BaseContext.extend_def)

lemma calculateContextAt_eq:
  "amortizationList st \<noteq> [] \<Longrightarrow>
   calculateContextAt eng st per =
     Inr (fold (\<lambda>operator c. operator per c) (getOperatorsAt eng per)
           ((BaseContext.extend (baseContext eng)
               (ContextItem.fields (periodValue per) None None None None))
            \<lparr> principal := principalBalance (last (amortizationList st)) \<rparr>))"
  by (simp add: calculateContextAt_def)

lemma calculateAmortizationAt_total:
  "contextList st \<noteq> [] \<Longrightarrow>
   \<exists>context' a. calculateAmortizationAt eng st per context = Inr (context', a)"
  by (simp add: calculateAmortizationAt_def Let_def)

lemma calculateAmortizationAt_period:
  "calculateAmortizationAt eng st per context = Inr (context', a) \<Longrightarrow>
   period a = periodValue per \<and> ContextItem.period context' = ContextItem.period context"
  by (auto simp add: calculateAmortizationAt_def Let_def lastItem_def split: if_splits)

subsection \<open>The loop always leaves through a final state\<close>

lemma loopState_lengths:
  "loopState eng per st \<Longrightarrow>
   length (contextList st) = per \<and> length (amortizationList st) = per \<and> 1 \<le> per
   \<and> totals st = None"
  by (induction rule: loopState.induct)
     (auto simp add: startCalculation_eq pushPeriod_def)

lemma loopState_nonempty:
  "loopState eng per st \<Longrightarrow> contextList st \<noteq> [] \<and> amortizationList st \<noteq> []"
  using loopState_lengths by fastforce

lemma periodLoop_final:
  "loopState eng per st \<Longrightarrow> \<exists>st'. periodLoop eng per st = Inr st' \<and> finalState eng st'"
proof (induction eng per st rule: periodLoop.induct)
  case (1 eng per st)
  note ls = \<open>loopState eng per st\<close>
  show ?case
  proof (cases "real per \<le> effTerm (baseContext eng)")
    case False
    then have "periodLoop eng per st = Inr st"
      by (simp add: periodLoop.simps [of eng per st])
    with ls False show ?thesis
      by (auto intro: finalState.termReached)
  next
    case True
    from ls obtain c where c: "calculateContextAt eng st per = Inr c"
      using calculateContextAt_eq loopState_nonempty by blast
    from ls obtain c' a where a: "calculateAmortizationAt eng st per c = Inr (c', a)"
      using calculateAmortizationAt_total loopState_nonempty by blast
    show ?thesis
    proof (cases "\<not> isSavingsMode eng \<and> principalBalance a \<le> 0")
      case brk: True
      then have "periodLoop eng per st = Inr (pushPeriod st c' a)"
        using True c a by (simp add: periodLoop.simps [of eng per st])
      moreover have "finalState eng (pushPeriod st c' a)"
        using finalState.paidOff [OF ls True c a brk] .
      ultimately show ?thesis by blast
    next
      case cont: False
      then have eq: "periodLoop eng per st = periodLoop eng (per + 1) (pushPeriod st c' a)"
        using True c a by (auto simp add: periodLoop.simps [of eng per st])
      have "loopState eng (per + 1) (pushPeriod st c' a)"
        using loopState.loopNext [OF ls True c a cont] .
      from "1.IH" [OF True c a refl cont this] eq show ?thesis
        by simp
    qed
  qed
qed

lemma finalState_nonempty:
  "finalState eng st \<Longrightarrow>
   contextList st \<noteq> [] \<and> amortizationList st \<noteq> [] \<and> totals st = None"
  by (induction rule: finalState.induct)
     (auto simp add: pushPeriod_def dest: loopState_nonempty loopState_lengths)

subsection \<open>The totals and the interest balance\<close>

lemma foldl_sumTotals_repayment:
  "totalsRepayment (foldl sumTotals t (map TotalsItem xs)) =
     totalsRepayment t + sum_list (map repayment xs)"
  by (induction xs arbitrary: t) (simp_all add: sumTotals_def)

lemma foldl_sumTotals_interestPaid:
  "totalsInterestPaid (foldl sumTotals t (map TotalsItem xs)) =
     totalsInterestPaid t + sum_list (map interestPaid xs)"
  by (induction xs arbitrary: t) (simp_all add: sumTotals_def)

lemma foldl_sumTotals_is_sum:
  "xs \<noteq> [] \<Longrightarrow> \<exists>r i. foldl sumTotals t (map TotalsItem xs) = TotalsSum r i"
  by (cases xs rule: rev_cases) (simp_all add: sumTotals_def)

lemma interestBalancePass_length [simp]:
  "length (interestBalancePass s b xs) = length xs"
  by (induction xs arbitrary: b) (simp_all add: Let_def)

lemma interestBalancePass_fields:
  "map repayment (interestBalancePass s b xs) = map repayment xs \<and>
   map interestPaid (interestBalancePass s b xs) = map interestPaid xs \<and>
   map principalPaid (interestBalancePass s b xs) = map principalPaid xs \<and>
   map principalBalance (interestBalancePass s b xs) = map principalBalance xs \<and>
   map period (interestBalancePass s b xs) = map period xs"
  by (induction xs arbitrary: b) (simp_all add: Let_def)

lemma interestBalancePass_Nil_iff [simp]: "interestBalancePass s b xs = [] \<longleftrightarrow> xs = []"
  by (cases xs) (simp_all add: Let_def)

lemma endCalculation_result:
  assumes "amortizationList st \<noteq> []"
  shows "\<exists>t. endCalculation eng st =
       Inr (st\<lparr> totals := Some t,
               amortizationList :=
                 interestBalancePass (isSavingsMode eng)
                   (if isSavingsMode eng then 0
                    else sum_list (map interestPaid (amortizationList st)))
                   (amortizationList st) \<rparr>) \<and>
     totalsRepayment t = sum_list (map repayment (amortizationList st)) \<and>
     totalsInterestPaid t = sum_list (map interestPaid (amortizationList st))"
proof -
  from assms obtain x xs where xs: "amortizationList st = x # xs"
    by (cases "amortizationList st") auto
  define t0 where "t0 = foldl sumTotals (TotalsItem x) (map TotalsItem xs)"
  have rep: "totalsRepayment t0 = sum_list (map repayment (x # xs))"
    and ip: "totalsInterestPaid t0 = sum_list (map interestPaid (x # xs))"
    by (simp_all add: t0_def foldl_sumTotals_repayment foldl_sumTotals_interestPaid)
  have tot: "calculateTotals st = Inr (st\<lparr> totals := Some t0 \<rparr>)"
    by (simp add: calculateTotals_def xs t0_def)
  show ?thesis
  proof (cases "xs = []")
    case True
    then show ?thesis
      using xs by (auto simp add: endCalculation_def calculateTotals_def
          calculateInterestBalance_def Let_def)
  next
    case False
    then obtain r i where "t0 = TotalsSum r i"
      using foldl_sumTotals_is_sum t0_def by blast
    then show ?thesis
      using xs rep ip tot
      by (auto simp add: endCalculation_def calculateInterestBalance_def Let_def)
  qed
qed

lemma calculate_run:
  "\<exists>st0 st t. startCalculation eng = Inr st0 \<and> loopState eng 1 st0 \<and>
     periodLoop eng 1 st0 = Inr st \<and> finalState eng st \<and>
     calculate eng =
       Inr (st\<lparr> totals := Some t,
               amortizationList :=
                 interestBalancePass (isSavingsMode eng)
                   (if isSavingsMode eng then 0
                    else sum_list (map interestPaid (amortizationList st)))
                   (amortizationList st) \<rparr>) \<and>
     totalsRepayment t = sum_list (map repayment (amortizationList st)) \<and>
     totalsInterestPaid t = sum_list (map interestPaid (amortizationList st))"
proof -
  obtain st0 where st0: "startCalculation eng = Inr st0"
    using startCalculation_eq by blast
  then have ls: "loopState eng 1 st0"
    by (rule loopState.loopStart)
  then obtain st where st: "periodLoop eng 1 st0 = Inr st" "finalState eng st"
    using periodLoop_final by blast
  then have "amortizationList st \<noteq> []"
    using finalState_nonempty by blast
  from endCalculation_result [OF this, of eng] obtain t where
    "endCalculation eng st =
       Inr (st\<lparr> totals := Some t,
               amortizationList :=
                 interestBalancePass (isSavingsMode eng)
                   (if isSavingsMode eng then 0
                    else sum_list (map interestPaid (amortizationList st)))
                   (amortizationList st) \<rparr>)"
    "totalsRepayment t = sum_list (map repayment (amortizationList st))"
    "totalsInterestPaid t = sum_list (map interestPaid (amortizationList st))"
    by blast
  with st0 ls st show ?thesis
    by (auto simp add: calculate_def)
qed

lemmas run_defs =
  calculate_def startCalculation_def calculateInitialPeriod_def resetResults_def
  calculateContextAt_def calculateAmortizationAt_def calculateRepayment_def
  pushPeriod_def orZero_def endCalculation_def calculateTotals_def
  calculateInterestBalance_def sumTotals_def periodLoop.simps
  BaseContext.extend_def ContextItem.fields_def Let_def

lemmas legacy_defs =
  legacyCalculate_def getEffTerm_def getEffInterestRate_def legacyLoop.simps
  getContextAt_def flattenContext_def newLoanSummaryItem_def legacySumTotals_def Let_def

subsection \<open>The repayment of a period\<close>

text \<open>
  Where the adjusted repayment of a loan-mode period (the scheduled repayment written
  into the context, plus effExtraRepayment, plus lumpSum, before the fee) is at most the
  opening principal, or exceeds principal + interestPaid, the repayment is capped as a
  payoff cap does: it is replaced by principal + interestPaid if and only if it exceeds
  that amount; principalPaid is the repayment before the fee minus interestPaid, and
  principalBalance is principal minus principalPaid.
\<close>

lemma loan_cap_outside_gap:
  assumes "\<not> isSavingsMode eng" and "contextList st \<noteq> []"
  shows "\<exists>ctx' a.
     calculateAmortizationAt eng st per ctx = Inr (ctx', a) \<and>
     interestPaid a =
       max ((principal ctx - orZero (offset ctx)) * effInterestRate ctx) 0 \<and>
     (BaseContext.repayment ctx' + orZero (effExtraRepayment ctx) + orZero (lumpSum ctx)
        \<le> principal ctx \<or>
      principal ctx + interestPaid a
        < BaseContext.repayment ctx' + orZero (effExtraRepayment ctx) + orZero (lumpSum ctx)
      \<longrightarrow>
      repayment a - orZero (fee ctx) =
        (if BaseContext.repayment ctx' + orZero (effExtraRepayment ctx)
              + orZero (lumpSum ctx) > principal ctx + interestPaid a
         then principal ctx + interestPaid a
         else BaseContext.repayment ctx' + orZero (effExtraRepayment ctx)
              + orZero (lumpSum ctx))) \<and>
     principalPaid a = repayment a - orZero (fee ctx) - interestPaid a \<and>
     principalBalance a = principal ctx - principalPaid a"
  using assms by (auto simp add: calculateAmortizationAt_def Let_def)

text \<open>
  C1. The claim is what a payoff cap does, and the code misses it: the guard of the cap
  compares the adjusted repayment with the principal alone and leaves interestPaid out.
  In the first period of an interest-only loan of 100 at 10 percent per period with a
  lump sum of 95, as the run of the engine reaches it, the interest is 10 and the adjusted
  repayment is 10 + 95 = 105. That does not exceed principal + interestPaid = 110, so the
  claim leaves the repayment at 105 (principalPaid 95, principalBalance 5); the code
  reports a repayment of 110, a principalPaid of 100 and a principalBalance of 0.
\<close>

theorem loan_cap_guard_omits_interest:
  "startCalculation payoffEngine = Inr payoffStart \<and>
   calculateContextAt payoffEngine payoffStart 1 = Inr payoffContext \<and>
   calculateAmortizationAt payoffEngine payoffStart 1 payoffContext =
     Inr (payoffContext\<lparr> BaseContext.repayment := 10 \<rparr>, payoffAmortization) \<and>
   \<not> (10 + orZero (effExtraRepayment payoffContext) + orZero (lumpSum payoffContext)
        > principal payoffContext + interestPaid payoffAmortization) \<and>
   repayment payoffAmortization
     \<noteq> 10 + orZero (effExtraRepayment payoffContext) + orZero (lumpSum payoffContext) \<and>
   repayment payoffAmortization = 110 \<and>
   principalPaid payoffAmortization = 100 \<and>
   principalBalance payoffAmortization = 0"
  by (simp add: example_defs run_defs)

text \<open>
  C7. The fee of a period enters the reported repayment only: with any fee, or with
  none, the call returns the same interestPaid, principalPaid and principalBalance and
  the same scheduled repayment in the context, and the reported repayment is the one
  without a fee plus the fee.
\<close>

theorem fee_changes_repayment_only:
  assumes "contextList st \<noteq> []"
  shows "\<exists>c a c0 a0.
     calculateAmortizationAt eng st per (ctx\<lparr> fee := f \<rparr>) = Inr (c, a) \<and>
     calculateAmortizationAt eng st per (ctx\<lparr> fee := None \<rparr>) = Inr (c0, a0) \<and>
     interestPaid a = interestPaid a0 \<and>
     principalPaid a = principalPaid a0 \<and>
     principalBalance a = principalBalance a0 \<and>
     repayment a = repayment a0 + orZero f \<and>
     c = c0\<lparr> fee := f \<rparr>"
  using assms
  by (simp add: calculateAmortizationAt_def calculateRepayment_def Let_def orZero_def)

theorem fee_changes_repayment_only_witness:
  "contextList payoffStart \<noteq> [] \<and>
   (\<exists>c a c0 a0.
     calculateAmortizationAt payoffEngine payoffStart 1 (payoffContext\<lparr> fee := Some 7 \<rparr>)
       = Inr (c, a) \<and>
     calculateAmortizationAt payoffEngine payoffStart 1 (payoffContext\<lparr> fee := None \<rparr>)
       = Inr (c0, a0) \<and>
     repayment a = 117 \<and> repayment a0 = 110 \<and>
     principalBalance a = 0 \<and> principalBalance a0 = 0)"
  using fee_changes_repayment_only
    [where st = payoffStart and eng = payoffEngine and per = 1 and ctx = payoffContext
       and f = "Some 7"]
  by (simp add: example_defs run_defs)

subsection \<open>Construction errors\<close>

text \<open>
  C6, as amended. Constructing a ContextItem or an AmortizationItem raises an error when
  the period is undefined; for a period that is a number it raises if and only if the
  number is NaN, so a finite and an infinite period are both accepted. No run of
  calculate raises, whatever the numbers of the loan are: it always returns a result.
\<close>

theorem construction_error_cases:
  "(\<exists>e. newContextItem JUndefined b = Inl e) \<and>
   (\<exists>e. newAmortizationItem JUndefined = Inl e) \<and>
   (\<forall>n. (\<exists>e. newContextItem (JNumber n) b = Inl e) \<longleftrightarrow> n = NaN) \<and>
   (\<forall>n. (\<exists>e. newAmortizationItem (JNumber n) = Inl e) \<longleftrightarrow> n = NaN) \<and>
   (\<exists>res. calculate eng = Inr res)"
proof -
  have "\<exists>res. calculate eng = Inr res"
    using calculate_run [of eng] by blast
  then show ?thesis
    by (simp add: newContextItem_def newAmortizationItem_def SummaryItem_def
        isUndefined_def isNaN_def)
qed

theorem construction_error_cases_witness:
  "(\<exists>e. newAmortizationItem (JNumber NaN) = Inl e) \<and>
   (\<exists>e. newContextItem JUndefined payoffBase = Inl e) \<and>
   (\<exists>res. calculate (plainEngine\<lparr> baseContext :=
       feeBase\<lparr> principal := 0, effInterestRate := 0, effTerm := 0 \<rparr> \<rparr>) = Inr res)"
  using construction_error_cases
    [where b = payoffBase and eng = "plainEngine\<lparr> baseContext :=
       feeBase\<lparr> principal := 0, effInterestRate := 0, effTerm := 0 \<rparr> \<rparr>"]
  by blast

text \<open>
  C6 as stated fails: positive infinity is not a finite number, and an AmortizationItem
  is constructed with it.
\<close>

theorem construction_error_counterexample:
  "newAmortizationItem (JNumber PosInfinity) =
     Inr \<lparr> period = JNumber PosInfinity, principalBalance = 0, interestBalance = 0,
           interestPaid = 0, principalPaid = 0, repayment = 0 \<rparr>"
  by (simp add: newAmortizationItem_def SummaryItem_def isUndefined_def isNaN_def)

subsection \<open>The runs of the examples\<close>

lemma feeEngine_run:
  "calculate feeEngine =
     Inr \<lparr> totals = Some (TotalsSum 185 80),
           contextList =
             [BaseContext.extend feeBase
                (ContextItem.fields (periodValue 0) None None None None),
              BaseContext.extend (feeBase\<lparr> BaseContext.repayment := 90 \<rparr>)
                (ContextItem.fields (periodValue 1) None None None None),
              BaseContext.extend (feeBase\<lparr> principal := 60, BaseContext.repayment := 90 \<rparr>)
                (ContextItem.fields (periodValue 2) (Some 5) None None None)],
           amortizationList =
             [\<lparr> period = periodValue 0, principalBalance = 100, interestBalance = 80,
                interestPaid = 0, principalPaid = 0, repayment = 0 \<rparr>,
              \<lparr> period = periodValue 1, principalBalance = 60, interestBalance = 30,
                interestPaid = 50, principalPaid = 40, repayment = 90 \<rparr>,
              \<lparr> period = periodValue 2, principalBalance = 0, interestBalance = 0,
                interestPaid = 30, principalPaid = 60, repayment = 95 \<rparr>] \<rparr>"
  by (simp add: example_defs run_defs power_divide)

lemma savingsEngine_run: "calculate savingsEngine = Inr savingsResult"
  by (simp add: savingsResult_def example_defs run_defs)

subsection \<open>Invariants of a run\<close>

lemma loopState_invariant:
  assumes "loopState eng per st"
    and init: "\<And>st0. startCalculation eng = Inr st0 \<Longrightarrow> P st0"
    and step: "\<And>n s c c' a. loopState eng n s \<Longrightarrow> P s \<Longrightarrow>
        real n \<le> effTerm (baseContext eng) \<Longrightarrow> calculateContextAt eng s n = Inr c \<Longrightarrow>
        calculateAmortizationAt eng s n c = Inr (c', a) \<Longrightarrow> P (pushPeriod s c' a)"
  shows "P st"
  using assms
proof (induction rule: loopState.induct)
  case (loopStart eng st)
  then show ?case by blast
next
  case (loopNext eng per st c c' a)
  have "P st"
    using loopNext.IH loopNext.prems by blast
  then show ?case
    using loopNext.hyps loopNext.prems(2) by blast
qed

lemma finalState_invariant:
  assumes "finalState eng st"
    and init: "\<And>st0. startCalculation eng = Inr st0 \<Longrightarrow> P st0"
    and step: "\<And>n s c c' a. loopState eng n s \<Longrightarrow> P s \<Longrightarrow>
        real n \<le> effTerm (baseContext eng) \<Longrightarrow> calculateContextAt eng s n = Inr c \<Longrightarrow>
        calculateAmortizationAt eng s n c = Inr (c', a) \<Longrightarrow> P (pushPeriod s c' a)"
  shows "P st"
  using assms(1)
proof (cases rule: finalState.cases)
  case (termReached per)
  then show ?thesis
    using loopState_invariant [where P = P and eng = eng] init step by blast
next
  case (paidOff per s c c' a)
  have "P s"
    using loopState_invariant [where P = P and eng = eng] paidOff(2) init step by blast
  then show ?thesis
    using paidOff step by blast
qed

lemma finalState_first_item:
  assumes "finalState eng st"
  shows "hd (amortizationList st) =
           \<lparr> period = periodValue 0, principalBalance = principal (baseContext eng),
             interestBalance = 0, interestPaid = 0, principalPaid = 0, repayment = 0 \<rparr> \<and>
         hd (contextList st) =
           BaseContext.extend (baseContext eng)
             (ContextItem.fields (periodValue 0) None None None None)"
proof (rule finalState_invariant [OF assms])
  fix st0 assume "startCalculation eng = Inr st0"
  then show "hd (amortizationList st0) =
           \<lparr> period = periodValue 0, principalBalance = principal (baseContext eng),
             interestBalance = 0, interestPaid = 0, principalPaid = 0, repayment = 0 \<rparr> \<and>
         hd (contextList st0) =
           BaseContext.extend (baseContext eng)
             (ContextItem.fields (periodValue 0) None None None None)"
    by (auto simp add: startCalculation_eq)
next
  fix n s c c' a
  assume "loopState eng n s"
    and "hd (amortizationList s) =
           \<lparr> period = periodValue 0, principalBalance = principal (baseContext eng),
             interestBalance = 0, interestPaid = 0, principalPaid = 0, repayment = 0 \<rparr> \<and>
         hd (contextList s) =
           BaseContext.extend (baseContext eng)
             (ContextItem.fields (periodValue 0) None None None None)"
  then show "hd (amortizationList (pushPeriod s c' a)) =
           \<lparr> period = periodValue 0, principalBalance = principal (baseContext eng),
             interestBalance = 0, interestPaid = 0, principalPaid = 0, repayment = 0 \<rparr> \<and>
         hd (contextList (pushPeriod s c' a)) =
           BaseContext.extend (baseContext eng)
             (ContextItem.fields (periodValue 0) None None None None)"
    using loopState_nonempty [of eng n s] by (simp add: pushPeriod_def)
qed

lemma interestBalancePass_hd:
  "xs \<noteq> [] \<Longrightarrow>
   hd (interestBalancePass s b xs) =
     (hd xs)\<lparr> interestBalance :=
       b - (if s then interestPaid (hd xs) * (- 1) else interestPaid (hd xs)) \<rparr>"
  by (cases xs) (simp_all add: Let_def)

lemma interestBalancePass_Suc:
  "Suc i < length xs \<Longrightarrow>
   interestBalance (interestBalancePass s b xs ! Suc i) =
     interestBalance (interestBalancePass s b xs ! i)
       - (if s then interestPaid (xs ! Suc i) * (- 1) else interestPaid (xs ! Suc i))"
proof (induction xs arbitrary: b i)
  case Nil
  then show ?case by simp
next
  case (Cons x xs)
  show ?case
  proof (cases i)
    case 0
    with Cons.prems obtain y ys where "xs = y # ys"
      by (cases xs) auto
    with 0 show ?thesis by (simp add: Let_def)
  next
    case (Suc k)
    with Cons.prems have "Suc k < length xs" by simp
    from Cons.IH [OF this] Suc show ?thesis by (simp add: Let_def)
  qed
qed

lemma interestBalancePass_last:
  "xs \<noteq> [] \<Longrightarrow>
   interestBalance (last (interestBalancePass s b xs)) =
     b - sum_list (map (\<lambda>a. if s then interestPaid a * (- 1) else interestPaid a) xs)"
proof (induction xs arbitrary: b)
  case Nil
  then show ?case by simp
next
  case (Cons x xs)
  show ?case
  proof (cases "xs = []")
    case True
    then show ?thesis by (simp add: Let_def)
  next
    case False
    from Cons.IH [OF False] False show ?thesis
      by (simp add: Let_def)
  qed
qed

subsection \<open>Totals\<close>

text \<open>
  C4. Every run returns, and in its result totals.repayment is the sum of the repayment
  fields and totals.interestPaid the sum of the interestPaid fields over the whole
  returned amortization list; the list starts with the entry of period 0, whose two
  fields are 0.
\<close>

theorem totals_are_sums:
  "\<exists>res t. calculate eng = Inr res \<and> totals res = Some t \<and>
     totalsRepayment t = sum_list (map repayment (amortizationList res)) \<and>
     totalsInterestPaid t = sum_list (map interestPaid (amortizationList res)) \<and>
     amortizationList res \<noteq> [] \<and>
     period (hd (amortizationList res)) = periodValue 0 \<and>
     repayment (hd (amortizationList res)) = 0 \<and>
     interestPaid (hd (amortizationList res)) = 0"
proof -
  from calculate_run [of eng] obtain st t where
    fin: "finalState eng st" and
    calc: "calculate eng =
       Inr (st\<lparr> totals := Some t,
               amortizationList :=
                 interestBalancePass (isSavingsMode eng)
                   (if isSavingsMode eng then 0
                    else sum_list (map interestPaid (amortizationList st)))
                   (amortizationList st) \<rparr>)" and
    rep: "totalsRepayment t = sum_list (map repayment (amortizationList st))" and
    ip: "totalsInterestPaid t = sum_list (map interestPaid (amortizationList st))"
    by blast
  have ne: "amortizationList st \<noteq> []"
    using fin finalState_nonempty by blast
  show ?thesis
    using calc rep ip ne finalState_first_item [OF fin]
    by (simp add: interestBalancePass_fields interestBalancePass_hd)
qed

theorem totals_are_sums_witness:
  "\<exists>res t. calculate feeEngine = Inr res \<and> totals res = Some t \<and>
     map repayment (amortizationList res) = [0, 90, 95] \<and> totalsRepayment t = 185 \<and>
     map interestPaid (amortizationList res) = [0, 50, 30] \<and> totalsInterestPaid t = 80"
  using totals_are_sums [where eng = feeEngine]
  by (simp add: feeEngine_run)

subsection \<open>A term below one period\<close>

text \<open>
  C9. If effTerm is below 1, the loop body never runs: calculate returns the two lists
  with their period-0 entries only, and totals is the period-0 AmortizationItem itself
  (repayment 0, interestPaid 0, and also period, principalPaid, interestBalance and a
  principalBalance equal to the opening principal).
\<close>

theorem short_term_run:
  assumes "effTerm (baseContext eng) < 1"
  shows "calculate eng =
     Inr \<lparr> totals = Some (TotalsItem
               \<lparr> period = periodValue 0, principalBalance = principal (baseContext eng),
                 interestBalance = 0, interestPaid = 0, principalPaid = 0,
                 repayment = 0 \<rparr>),
           contextList = [BaseContext.extend (baseContext eng)
                            (ContextItem.fields (periodValue 0) None None None None)],
           amortizationList =
             [\<lparr> period = periodValue 0, principalBalance = principal (baseContext eng),
                interestBalance = 0, interestPaid = 0, principalPaid = 0,
                repayment = 0 \<rparr>] \<rparr>"
  using assms
  by (simp add: calculate_def startCalculation_eq periodLoop.simps [of eng "Suc 0"]
      endCalculation_def calculateTotals_def calculateInterestBalance_def Let_def)

theorem short_term_run_witness:
  "effTerm (baseContext (plainEngine\<lparr> baseContext := feeBase\<lparr> effTerm := 1 / 2 \<rparr> \<rparr>)) < 1 \<and>
   calculate (plainEngine\<lparr> baseContext := feeBase\<lparr> effTerm := 1 / 2 \<rparr> \<rparr>) =
     Inr \<lparr> totals = Some (TotalsItem
               \<lparr> period = periodValue 0, principalBalance = 100,
                 interestBalance = 0, interestPaid = 0, principalPaid = 0,
                 repayment = 0 \<rparr>),
           contextList = [BaseContext.extend (feeBase\<lparr> effTerm := 1 / 2 \<rparr>)
                            (ContextItem.fields (periodValue 0) None None None None)],
           amortizationList =
             [\<lparr> period = periodValue 0, principalBalance = 100,
                interestBalance = 0, interestPaid = 0, principalPaid = 0,
                repayment = 0 \<rparr>] \<rparr>"
  using short_term_run
    [where eng = "plainEngine\<lparr> baseContext := feeBase\<lparr> effTerm := 1 / 2 \<rparr> \<rparr>"]
  by (simp add: example_defs)

subsection \<open>The interest balance\<close>

text \<open>
  C5. Every run returns, and in its result the interestBalance of period 0 is
  totals.interestPaid in loan mode and 0 in savings mode; the interestBalance of every
  later period is that of the period before minus the period's interestPaid (minus its
  negation in savings mode); and in loan mode the interestBalance of the last period is 0.
\<close>

theorem interest_balance_series:
  "\<exists>res t. calculate eng = Inr res \<and> totals res = Some t \<and>
     amortizationList res \<noteq> [] \<and>
     interestBalance (amortizationList res ! 0) =
       (if isSavingsMode eng then 0 else totalsInterestPaid t) \<and>
     (\<forall>i. 1 \<le> i \<and> i < length (amortizationList res) \<longrightarrow>
        interestBalance (amortizationList res ! i) =
          interestBalance (amortizationList res ! (i - 1))
            - (if isSavingsMode eng then interestPaid (amortizationList res ! i) * (- 1)
               else interestPaid (amortizationList res ! i))) \<and>
     (\<not> isSavingsMode eng \<longrightarrow> interestBalance (last (amortizationList res)) = 0)"
proof -
  from calculate_run [of eng] obtain st t where
    fin: "finalState eng st" and
    calc: "calculate eng =
       Inr (st\<lparr> totals := Some t,
               amortizationList :=
                 interestBalancePass (isSavingsMode eng)
                   (if isSavingsMode eng then 0
                    else sum_list (map interestPaid (amortizationList st)))
                   (amortizationList st) \<rparr>)" and
    ip: "totalsInterestPaid t = sum_list (map interestPaid (amortizationList st))"
    by blast
  define xs where "xs = amortizationList st"
  define b where "b = (if isSavingsMode eng then 0 else sum_list (map interestPaid xs))"
  define ys where "ys = interestBalancePass (isSavingsMode eng) b xs"
  have ne: "xs \<noteq> []"
    by (simp add: xs_def finalState_nonempty [OF fin])
  have first: "interestPaid (hd xs) = 0"
    using finalState_first_item [OF fin] by (simp add: xs_def)
  have res: "calculate eng = Inr (st\<lparr> totals := Some t, amortizationList := ys \<rparr>)"
    using calc by (simp add: ys_def b_def xs_def)
  have len: "length ys = length xs"
    by (simp add: ys_def)
  have paid: "interestPaid (ys ! i) = interestPaid (xs ! i)" if "i < length xs" for i
  proof -
    have "map interestPaid ys = map interestPaid xs"
      by (simp add: ys_def interestBalancePass_fields)
    then have "map interestPaid ys ! i = map interestPaid xs ! i"
      by simp
    with that len show ?thesis by simp
  qed
  have zero: "interestBalance (ys ! 0) = (if isSavingsMode eng then 0 else totalsInterestPaid t)"
  proof -
    have "ys \<noteq> []"
      using ne len by auto
    then have "ys ! 0 = hd ys"
      by (simp add: hd_conv_nth)
    then show ?thesis
      using ne first ip by (simp add: ys_def interestBalancePass_hd b_def xs_def)
  qed
  have later: "interestBalance (ys ! i) = interestBalance (ys ! (i - 1))
        - (if isSavingsMode eng then interestPaid (ys ! i) * (- 1) else interestPaid (ys ! i))"
    if "1 \<le> i \<and> i < length ys" for i
  proof -
    from that obtain k where k: "i = Suc k" by (cases i) auto
    with that len have "Suc k < length xs" by simp
    from interestBalancePass_Suc [OF this, of "isSavingsMode eng" b] paid [OF this] k
    show ?thesis by (auto simp add: ys_def)
  qed
  have final: "interestBalance (last ys) = 0" if "\<not> isSavingsMode eng"
    using that interestBalancePass_last [OF ne, of "isSavingsMode eng" b]
    by (simp add: ys_def b_def)
  have ys_ne: "ys \<noteq> []"
    using ne len by auto
  have later_all: "\<forall>i. 1 \<le> i \<and> i < length ys \<longrightarrow>
        interestBalance (ys ! i) = interestBalance (ys ! (i - 1))
          - (if isSavingsMode eng then interestPaid (ys ! i) * (- 1)
             else interestPaid (ys ! i))"
    using later by blast
  have final_imp: "\<not> isSavingsMode eng \<longrightarrow> interestBalance (last ys) = 0"
    using final by blast
  let ?res = "st\<lparr> totals := Some t, amortizationList := ys \<rparr>"
  have "calculate eng = Inr ?res \<and> totals ?res = Some t \<and>
     amortizationList ?res \<noteq> [] \<and>
     interestBalance (amortizationList ?res ! 0) =
       (if isSavingsMode eng then 0 else totalsInterestPaid t) \<and>
     (\<forall>i. 1 \<le> i \<and> i < length (amortizationList ?res) \<longrightarrow>
        interestBalance (amortizationList ?res ! i) =
          interestBalance (amortizationList ?res ! (i - 1))
            - (if isSavingsMode eng then interestPaid (amortizationList ?res ! i) * (- 1)
               else interestPaid (amortizationList ?res ! i))) \<and>
     (\<not> isSavingsMode eng \<longrightarrow> interestBalance (last (amortizationList ?res)) = 0)"
    using res ys_ne zero later_all final_imp by simp
  then show ?thesis
    by blast
qed

theorem interest_balance_series_witness:
  "\<exists>res t. calculate feeEngine = Inr res \<and> totals res = Some t \<and>
     totalsInterestPaid t = 80 \<and>
     map interestBalance (amortizationList res) = [80, 30, 0]"
  using interest_balance_series [where eng = feeEngine]
  by (simp add: feeEngine_run)

subsection \<open>Alignment of the two lists\<close>

lemma run_invariant:
  assumes "loopState eng per st \<or> finalState eng st"
    and init: "\<And>st0. startCalculation eng = Inr st0 \<Longrightarrow> P st0"
    and step: "\<And>n s c c' a. loopState eng n s \<Longrightarrow> P s \<Longrightarrow>
        real n \<le> effTerm (baseContext eng) \<Longrightarrow> calculateContextAt eng s n = Inr c \<Longrightarrow>
        calculateAmortizationAt eng s n c = Inr (c', a) \<Longrightarrow> P (pushPeriod s c' a)"
  shows "P st"
  using assms(1)
proof
  assume "loopState eng per st"
  then show ?thesis
    using loopState_invariant [where P = P and eng = eng] init step by blast
next
  assume "finalState eng st"
  then show ?thesis
    using finalState_invariant [where P = P and eng = eng] init step by blast
qed

lemma run_nonempty:
  "loopState eng per st \<or> finalState eng st \<Longrightarrow>
   contextList st \<noteq> [] \<and> amortizationList st \<noteq> []"
  using loopState_nonempty finalState_nonempty by blast

lemma fold_operators_period:
  assumes "\<forall>operator \<in> set ops. \<forall>c. ContextItem.period (operator per c) = ContextItem.period c"
  shows "ContextItem.period (fold (\<lambda>operator c. operator per c) ops c0) = ContextItem.period c0"
  using assms by (induction ops arbitrary: c0) simp_all

lemma calculateContextAt_period:
  assumes "operatorsKeepPeriod eng" and "calculateContextAt eng st per = Inr c"
  shows "ContextItem.period c = periodValue per"
proof -
  have keep: "\<forall>operator \<in> set (getOperatorsAt eng per).
      \<forall>c. ContextItem.period (operator per c) = ContextItem.period c"
    using assms(1) by (simp add: operatorsKeepPeriod_def)
  from assms(2) have ne: "amortizationList st \<noteq> []"
    by (auto simp add: calculateContextAt_def lastItem_def split: if_splits)
  from assms(2) have "c = fold (\<lambda>operator c. operator per c) (getOperatorsAt eng per)
           ((BaseContext.extend (baseContext eng)
               (ContextItem.fields (periodValue per) None None None None))
            \<lparr> principal := principalBalance (last (amortizationList st)) \<rparr>)"
    by (simp add: calculateContextAt_eq [OF ne])
  then show ?thesis
    by (simp add: fold_operators_period [OF keep] BaseContext.extend_def
        ContextItem.fields_def)
qed

lemma amortization_periods:
  assumes "loopState eng per st \<or> finalState eng st"
  shows "map period (amortizationList st) = map periodValue [0..<length (amortizationList st)]"
proof (rule run_invariant [OF assms])
  fix st0 assume "startCalculation eng = Inr st0"
  then show "map period (amortizationList st0) =
      map periodValue [0..<length (amortizationList st0)]"
    by (auto simp add: startCalculation_eq)
next
  fix n s c c' a
  assume ls: "loopState eng n s"
    and inv: "map period (amortizationList s) = map periodValue [0..<length (amortizationList s)]"
    and am: "calculateAmortizationAt eng s n c = Inr (c', a)"
  have len: "length (amortizationList s) = n"
    using loopState_lengths [OF ls] by simp
  have "period a = periodValue n"
    using calculateAmortizationAt_period [OF am] by simp
  with inv len show "map period (amortizationList (pushPeriod s c' a)) =
      map periodValue [0..<length (amortizationList (pushPeriod s c' a))]"
    by (simp add: pushPeriod_def)
qed

lemma context_periods:
  assumes keep: "operatorsKeepPeriod eng" and run: "loopState eng per st \<or> finalState eng st"
  shows "map ContextItem.period (contextList st) = map periodValue [0..<length (contextList st)]"
proof (rule run_invariant [OF run])
  fix st0 assume "startCalculation eng = Inr st0"
  then show "map ContextItem.period (contextList st0) =
      map periodValue [0..<length (contextList st0)]"
    by (auto simp add: startCalculation_eq BaseContext.extend_def ContextItem.fields_def)
next
  fix n s c c' a
  assume ls: "loopState eng n s"
    and inv: "map ContextItem.period (contextList s) = map periodValue [0..<length (contextList s)]"
    and cx: "calculateContextAt eng s n = Inr c"
    and am: "calculateAmortizationAt eng s n c = Inr (c', a)"
  have len: "length (contextList s) = n"
    using loopState_lengths [OF ls] by simp
  have "ContextItem.period c' = periodValue n"
    using calculateAmortizationAt_period [OF am] calculateContextAt_period [OF keep cx]
    by simp
  with inv len show "map ContextItem.period (contextList (pushPeriod s c' a)) =
      map periodValue [0..<length (contextList (pushPeriod s c' a))]"
    by (simp add: pushPeriod_def)
qed

lemma run_lengths:
  assumes "loopState eng per st \<or> finalState eng st"
  shows "length (contextList st) = length (amortizationList st)"
proof (rule run_invariant [OF assms])
  fix st0 assume "startCalculation eng = Inr st0"
  then show "length (contextList st0) = length (amortizationList st0)"
    by (auto simp add: startCalculation_eq)
next
  fix n and s :: Results and c c' a
  assume "length (contextList s) = length (amortizationList s)"
  then show "length (contextList (pushPeriod s c' a)) = length (amortizationList (pushPeriod s c' a))"
    by (simp add: pushPeriod_def)
qed

lemma aligned_from_periods:
  assumes cs: "map ContextItem.period (contextList st) = map periodValue [0..<length (contextList st)]"
    and as: "map period (amortizationList st) = map periodValue [0..<length (amortizationList st)]"
    and len: "length (contextList st) = length (amortizationList st)"
    and ne: "contextList st \<noteq> []"
  shows "aligned st"
proof -
  have c_nth: "ContextItem.period (contextList st ! i) = periodValue i"
    if "i < length (contextList st)" for i
  proof -
    have "map ContextItem.period (contextList st) ! i
        = map periodValue [0..<length (contextList st)] ! i"
      using cs by simp
    with that show ?thesis by simp
  qed
  have a_nth: "period (amortizationList st ! i) = periodValue i"
    if "i < length (amortizationList st)" for i
  proof -
    have "map period (amortizationList st) ! i
        = map periodValue [0..<length (amortizationList st)] ! i"
      using as by simp
    with that show ?thesis by simp
  qed
  have pos: "0 < length (contextList st)"
    using ne by simp
  have "ContextItem.period (hd (contextList st)) = periodValue 0"
    using c_nth [OF pos] ne by (simp add: hd_conv_nth)
  moreover have "period (hd (amortizationList st)) = periodValue 0"
    using a_nth [of 0] pos len by (simp add: hd_conv_nth)
  ultimately show ?thesis
    using c_nth a_nth len ne by (simp add: aligned_def)
qed

lemma run_aligned:
  assumes "operatorsKeepPeriod eng" and "loopState eng per st \<or> finalState eng st"
  shows "aligned st"
  using aligned_from_periods [OF context_periods [OF assms] amortization_periods [OF assms(2)]
      run_lengths [OF assms(2)]] run_nonempty [OF assms(2)]
  by blast

text \<open>
  C8. Provided the operators leave the period of a context alone, the two lists are
  aligned whenever the loop tests a period, when the loop is left, and in the result that
  every run returns: they have the same length, both start with a period-0 entry, and
  at every index the periods of the two entries are equal.
\<close>

theorem lists_aligned:
  assumes "operatorsKeepPeriod eng"
  shows "(\<forall>per st. loopState eng per st \<longrightarrow> aligned st) \<and>
         (\<forall>st. finalState eng st \<longrightarrow> aligned st) \<and>
         (\<exists>res. calculate eng = Inr res \<and> aligned res)"
proof -
  from calculate_run [of eng] obtain st t where
    fin: "finalState eng st" and
    calc: "calculate eng =
       Inr (st\<lparr> totals := Some t,
               amortizationList :=
                 interestBalancePass (isSavingsMode eng)
                   (if isSavingsMode eng then 0
                    else sum_list (map interestPaid (amortizationList st)))
                   (amortizationList st) \<rparr>)"
    by blast
  define res where "res = st\<lparr> totals := Some t,
               amortizationList :=
                 interestBalancePass (isSavingsMode eng)
                   (if isSavingsMode eng then 0
                    else sum_list (map interestPaid (amortizationList st)))
                   (amortizationList st) \<rparr>"
  have run: "loopState eng 0 st \<or> finalState eng st"
    using fin by blast
  have "aligned res"
  proof (rule aligned_from_periods)
    show "map ContextItem.period (contextList res) =
        map periodValue [0..<length (contextList res)]"
      using context_periods [OF assms run] by (simp add: res_def)
    show "map period (amortizationList res) =
        map periodValue [0..<length (amortizationList res)]"
      using amortization_periods [OF run]
      by (simp add: res_def interestBalancePass_fields)
    show "length (contextList res) = length (amortizationList res)"
      using run_lengths [OF run] by (simp add: res_def)
    show "contextList res \<noteq> []"
      using run_nonempty [OF run] by (simp add: res_def)
  qed
  then have "\<exists>res. calculate eng = Inr res \<and> aligned res"
    using calc res_def by blast
  then show ?thesis
    using run_aligned [OF assms] by blast
qed

theorem lists_aligned_witness:
  "operatorsKeepPeriod feeEngine \<and>
   (\<exists>res. calculate feeEngine = Inr res \<and>
      length (contextList res) = 3 \<and> length (amortizationList res) = 3 \<and>
      ContextItem.period (contextList res ! 2) = period (amortizationList res ! 2))"
proof -
  have keep: "operatorsKeepPeriod feeEngine"
    by (simp add: operatorsKeepPeriod_def feeEngine_def feeOperator_def)
  from lists_aligned [OF keep] obtain res where
    "calculate feeEngine = Inr res" "aligned res"
    by blast
  with keep show ?thesis
    by (auto simp add: feeEngine_run aligned_def)
qed

subsection \<open>When the loop is left\<close>

lemma real_le_iff_le_nat_floor:
  "1 \<le> per \<Longrightarrow> real per \<le> x \<longleftrightarrow> per \<le> nat \<lfloor>x\<rfloor>"
  by (simp add: le_nat_floor le_floor_iff nat_le_iff of_nat_le_iff) linarith

lemma loopState_bound:
  "loopState eng per st \<Longrightarrow> per \<le> nat \<lfloor>effTerm (baseContext eng)\<rfloor> + 1"
  by (induction rule: loopState.induct) (simp_all add: le_nat_floor)

lemma loopState_positive:
  "loopState eng per st \<Longrightarrow> \<not> isSavingsMode eng \<Longrightarrow>
   \<forall>i. 1 \<le> i \<and> i < length (amortizationList st) \<longrightarrow>
       0 < principalBalance (amortizationList st ! i)"
proof (induction rule: loopState.induct)
  case (loopStart eng st)
  then show ?case by (auto simp add: startCalculation_eq)
next
  case (loopNext eng per st c c' a)
  have len: "length (amortizationList st) = per"
    using loopState_lengths [OF loopNext.hyps(1)] by simp
  have pos: "0 < principalBalance a"
    using loopNext.hyps(5) loopNext.prems by simp
  show ?case
  proof (intro allI impI)
    fix i
    assume i: "1 \<le> i \<and> i < length (amortizationList (pushPeriod st c' a))"
    show "0 < principalBalance (amortizationList (pushPeriod st c' a) ! i)"
    proof (cases "i < per")
      case True
      then show ?thesis
        using loopNext.IH [OF loopNext.prems] i len by (simp add: pushPeriod_def nth_append)
    next
      case False
      with i len have "i = per" by (simp add: pushPeriod_def)
      then show ?thesis
        using pos len by (simp add: pushPeriod_def nth_append)
    qed
  qed
qed

lemma finalState_exit:
  assumes "finalState eng st"
  shows "\<exists>m. length (amortizationList st) = m + 1 \<and>
     m \<le> nat \<lfloor>effTerm (baseContext eng)\<rfloor> \<and>
     (isSavingsMode eng \<longrightarrow> m = nat \<lfloor>effTerm (baseContext eng)\<rfloor>) \<and>
     (\<not> isSavingsMode eng \<longrightarrow>
        (\<forall>i. 1 \<le> i \<and> i < m \<longrightarrow> 0 < principalBalance (amortizationList st ! i)) \<and>
        (m < nat \<lfloor>effTerm (baseContext eng)\<rfloor> \<longrightarrow>
           1 \<le> m \<and> principalBalance (amortizationList st ! m) \<le> 0))"
  using assms
proof (cases rule: finalState.cases)
  case (termReached per)
  have len: "length (amortizationList st) = per" and per: "1 \<le> per"
    using loopState_lengths [OF termReached(1)] by simp_all
  have "per \<le> nat \<lfloor>effTerm (baseContext eng)\<rfloor> + 1"
    using loopState_bound [OF termReached(1)] .
  moreover have "\<not> per \<le> nat \<lfloor>effTerm (baseContext eng)\<rfloor>"
    using termReached(2) real_le_iff_le_nat_floor [OF per] by blast
  ultimately have eq: "per = nat \<lfloor>effTerm (baseContext eng)\<rfloor> + 1"
    by simp
  have "\<not> isSavingsMode eng \<longrightarrow>
      (\<forall>i. 1 \<le> i \<and> i < per - 1 \<longrightarrow> 0 < principalBalance (amortizationList st ! i))"
    using loopState_positive [OF termReached(1)] len by auto
  with len eq show ?thesis
    by (intro exI [of _ "per - 1"]) simp
next
  case (paidOff per s c c' a)
  have len: "length (amortizationList s) = per" and per: "1 \<le> per"
    using loopState_lengths [OF paidOff(2)] by simp_all
  have le: "per \<le> nat \<lfloor>effTerm (baseContext eng)\<rfloor>"
    using paidOff(3) real_le_iff_le_nat_floor [OF per] by blast
  have loan: "\<not> isSavingsMode eng" and paid: "principalBalance a \<le> 0"
    using paidOff(6) by simp_all
  have "\<forall>i. 1 \<le> i \<and> i < per \<longrightarrow> 0 < principalBalance (amortizationList st ! i)"
    using loopState_positive [OF paidOff(2) loan] len
    by (simp add: paidOff(1) pushPeriod_def nth_append)
  moreover have "principalBalance (amortizationList st ! per) \<le> 0"
    using paid len by (simp add: paidOff(1) pushPeriod_def nth_append)
  moreover have "length (amortizationList st) = per + 1"
    using len by (simp add: paidOff(1) pushPeriod_def)
  ultimately show ?thesis
    using le loan per by (intro exI [of _ per]) simp
qed

lemma payoffEngine_run:
  "calculate payoffEngine =
     Inr \<lparr> totals = Some (TotalsSum 110 10),
           contextList =
             [BaseContext.extend payoffBase
                (ContextItem.fields (periodValue 0) None None None None),
              BaseContext.extend (payoffBase\<lparr> BaseContext.repayment := 10 \<rparr>)
                (ContextItem.fields (periodValue 1) None None (Some 95) None)],
           amortizationList =
             [\<lparr> period = periodValue 0, principalBalance = 100, interestBalance = 10,
                interestPaid = 0, principalPaid = 0, repayment = 0 \<rparr>,
              \<lparr> period = periodValue 1, principalBalance = 0, interestBalance = 0,
                interestPaid = 10, principalPaid = 100, repayment = 110 \<rparr>] \<rparr>"
  by (simp add: example_defs run_defs)

text \<open>
  C3, as amended. Every run returns. With m the last period of the returned lists
  (they hold the periods 0 to m), m is at most the whole number of periods in effTerm,
  that is the floor of effTerm, or 0 when effTerm is below 1. A savings-mode run is never
  left early: m is exactly that number, so the lists have floor(effTerm) + 1 entries. A
  loan-mode run is left early exactly at the first period whose principalBalance is at
  most 0: every period from 1 up to m - 1 has a positive principalBalance, and when m is
  below the whole number of periods in effTerm, period m exists and its principalBalance
  is at most 0.
\<close>

theorem loop_exit:
  "\<exists>res m. calculate eng = Inr res \<and>
     length (amortizationList res) = m + 1 \<and> length (contextList res) = m + 1 \<and>
     map period (amortizationList res) = map periodValue [0..<m + 1] \<and>
     m \<le> nat \<lfloor>effTerm (baseContext eng)\<rfloor> \<and>
     (isSavingsMode eng \<longrightarrow> m = nat \<lfloor>effTerm (baseContext eng)\<rfloor>) \<and>
     (\<not> isSavingsMode eng \<longrightarrow>
        (\<forall>i. 1 \<le> i \<and> i < m \<longrightarrow> 0 < principalBalance (amortizationList res ! i)) \<and>
        (m < nat \<lfloor>effTerm (baseContext eng)\<rfloor> \<longrightarrow>
           1 \<le> m \<and> principalBalance (amortizationList res ! m) \<le> 0))"
proof -
  from calculate_run [of eng] obtain st t where
    fin: "finalState eng st" and
    calc: "calculate eng =
       Inr (st\<lparr> totals := Some t,
               amortizationList :=
                 interestBalancePass (isSavingsMode eng)
                   (if isSavingsMode eng then 0
                    else sum_list (map interestPaid (amortizationList st)))
                   (amortizationList st) \<rparr>)"
    by blast
  define ys where "ys = interestBalancePass (isSavingsMode eng)
                   (if isSavingsMode eng then 0
                    else sum_list (map interestPaid (amortizationList st)))
                   (amortizationList st)"
  define res where "res = st\<lparr> totals := Some t, amortizationList := ys \<rparr>"
  have run: "loopState eng 0 st \<or> finalState eng st"
    using fin by blast
  have len: "length ys = length (amortizationList st)"
    by (simp add: ys_def)
  have bal: "principalBalance (ys ! i) = principalBalance (amortizationList st ! i)"
    if "i < length (amortizationList st)" for i
  proof -
    have "map principalBalance ys ! i = map principalBalance (amortizationList st) ! i"
      by (simp add: ys_def interestBalancePass_fields)
    with that len show ?thesis by simp
  qed
  have periods: "map period ys = map periodValue [0..<length ys]"
    using amortization_periods [OF run] by (simp add: ys_def interestBalancePass_fields)
  from finalState_exit [OF fin] obtain m where
    m: "length (amortizationList st) = m + 1"
       "m \<le> nat \<lfloor>effTerm (baseContext eng)\<rfloor>"
       "isSavingsMode eng \<longrightarrow> m = nat \<lfloor>effTerm (baseContext eng)\<rfloor>"
       "\<not> isSavingsMode eng \<longrightarrow>
        (\<forall>i. 1 \<le> i \<and> i < m \<longrightarrow> 0 < principalBalance (amortizationList st ! i)) \<and>
        (m < nat \<lfloor>effTerm (baseContext eng)\<rfloor> \<longrightarrow>
           1 \<le> m \<and> principalBalance (amortizationList st ! m) \<le> 0)"
    by blast
  have loan: "\<not> isSavingsMode eng \<longrightarrow>
        (\<forall>i. 1 \<le> i \<and> i < m \<longrightarrow> 0 < principalBalance (ys ! i)) \<and>
        (m < nat \<lfloor>effTerm (baseContext eng)\<rfloor> \<longrightarrow>
           1 \<le> m \<and> principalBalance (ys ! m) \<le> 0)"
    using m(4) m(1) bal by simp
  have "calculate eng = Inr res \<and>
     length (amortizationList res) = m + 1 \<and> length (contextList res) = m + 1 \<and>
     map period (amortizationList res) = map periodValue [0..<m + 1] \<and>
     m \<le> nat \<lfloor>effTerm (baseContext eng)\<rfloor> \<and>
     (isSavingsMode eng \<longrightarrow> m = nat \<lfloor>effTerm (baseContext eng)\<rfloor>) \<and>
     (\<not> isSavingsMode eng \<longrightarrow>
        (\<forall>i. 1 \<le> i \<and> i < m \<longrightarrow> 0 < principalBalance (amortizationList res ! i)) \<and>
        (m < nat \<lfloor>effTerm (baseContext eng)\<rfloor> \<longrightarrow>
           1 \<le> m \<and> principalBalance (amortizationList res ! m) \<le> 0))"
    using calc m(1,2,3) loan periods len run_lengths [OF run]
    by (simp add: res_def ys_def)
  then show ?thesis
    by blast
qed

theorem loop_exit_witness:
  "(\<exists>res. calculate payoffEngine = Inr res \<and> length (amortizationList res) = 2 \<and>
      nat \<lfloor>effTerm (baseContext payoffEngine)\<rfloor> = 3 \<and>
      principalBalance (amortizationList res ! 1) \<le> 0) \<and>
   (\<exists>res. calculate savingsEngine = Inr res \<and> isSavingsMode savingsEngine \<and>
      nat \<lfloor>effTerm (baseContext savingsEngine)\<rfloor> = 2 \<and>
      length (amortizationList res) = 3)"
proof -
  have "nat \<lfloor>effTerm (baseContext payoffEngine)\<rfloor> = 3"
    by (simp add: payoffEngine_def payoffBase_def)
  moreover have "nat \<lfloor>effTerm (baseContext savingsEngine)\<rfloor> = 2"
  proof -
    have "\<lfloor>5 / 2 :: real\<rfloor> = 2"
      by (simp add: floor_eq_iff)
    then show ?thesis
      by (simp add: savingsEngine_def)
  qed
  moreover have "isSavingsMode savingsEngine"
    by (simp add: savingsEngine_def)
  ultimately show ?thesis
    using loop_exit [where eng = payoffEngine] loop_exit [where eng = savingsEngine]
    by (simp add: payoffEngine_run savingsEngine_run savingsResult_def)
qed

text \<open>
  C3 as stated fails: the savings plan with an effTerm of two and a half periods returns
  three entries, not effTerm + 1.
\<close>

theorem loop_exit_counterexample:
  "isSavingsMode savingsEngine \<and> calculate savingsEngine = Inr savingsResult \<and>
   real (length (amortizationList savingsResult)) \<noteq> effTerm (baseContext savingsEngine) + 1"
  by (simp add: savingsEngine_run) (simp add: savingsEngine_def savingsResult_def)

subsection \<open>The scheduled repayment\<close>

lemma calculateAmortizationAt_context:
  assumes "contextList st \<noteq> []" and "calculateAmortizationAt eng st per c = Inr (c', a)"
  shows "c' = c\<lparr> BaseContext.repayment :=
           specScheduledRepayment eng per (last (contextList st)) c \<rparr>"
  using assms
  by (auto simp add: calculateAmortizationAt_def calculateRepayment_def
      specScheduledRepayment_def Let_def)

lemma specScheduledRepayment_update [simp]:
  "specScheduledRepayment eng i previous (c\<lparr> BaseContext.repayment := r \<rparr>) =
     specScheduledRepayment eng i previous c"
  by (simp add: specScheduledRepayment_def)

lemma run_repayments:
  assumes "loopState eng per st \<or> finalState eng st"
  shows "(\<forall>i. 1 \<le> i \<and> i < length (contextList st) \<longrightarrow>
            BaseContext.repayment (contextList st ! i) =
              specScheduledRepayment eng i (contextList st ! (i - 1)) (contextList st ! i)) \<and>
         (isSavingsMode eng \<longrightarrow>
            (\<forall>i < length (contextList st).
               BaseContext.repayment (contextList st ! i) =
                 BaseContext.repayment (baseContext eng)))"
proof (rule run_invariant [OF assms])
  fix st0 assume "startCalculation eng = Inr st0"
  then show "(\<forall>i. 1 \<le> i \<and> i < length (contextList st0) \<longrightarrow>
            BaseContext.repayment (contextList st0 ! i) =
              specScheduledRepayment eng i (contextList st0 ! (i - 1)) (contextList st0 ! i)) \<and>
         (isSavingsMode eng \<longrightarrow>
            (\<forall>i < length (contextList st0).
               BaseContext.repayment (contextList st0 ! i) =
                 BaseContext.repayment (baseContext eng)))"
    by (auto simp add: startCalculation_eq BaseContext.extend_def)
next
  fix n s c c' a
  assume ls: "loopState eng n s"
    and inv: "(\<forall>i. 1 \<le> i \<and> i < length (contextList s) \<longrightarrow>
            BaseContext.repayment (contextList s ! i) =
              specScheduledRepayment eng i (contextList s ! (i - 1)) (contextList s ! i)) \<and>
         (isSavingsMode eng \<longrightarrow>
            (\<forall>i < length (contextList s).
               BaseContext.repayment (contextList s ! i) =
                 BaseContext.repayment (baseContext eng)))"
    and am: "calculateAmortizationAt eng s n c = Inr (c', a)"
  have len: "length (contextList s) = n" and n: "1 \<le> n"
    using loopState_lengths [OF ls] by simp_all
  have ne: "contextList s \<noteq> []"
    using loopState_nonempty [OF ls] by simp
  have c': "c' = c\<lparr> BaseContext.repayment :=
           specScheduledRepayment eng n (last (contextList s)) c \<rparr>"
    using calculateAmortizationAt_context [OF ne am] .
  have last: "last (contextList s) = contextList s ! (n - 1)"
    using ne len by (simp add: last_conv_nth)
  have new: "BaseContext.repayment c' = specScheduledRepayment eng n (contextList s ! (n - 1)) c'"
    using c' last by simp
  have rule: "BaseContext.repayment (contextList (pushPeriod s c' a) ! i) =
        specScheduledRepayment eng i (contextList (pushPeriod s c' a) ! (i - 1))
          (contextList (pushPeriod s c' a) ! i)"
    if i: "1 \<le> i \<and> i < length (contextList (pushPeriod s c' a))" for i
  proof (cases "i < n")
    case True
    then have "i - 1 < n" by simp
    with True show ?thesis
      using inv i len by (simp add: pushPeriod_def nth_append)
  next
    case False
    with i len have "i = n" by (simp add: pushPeriod_def)
    then show ?thesis
      using new len n by (simp add: pushPeriod_def nth_append)
  qed
  have sav: "BaseContext.repayment (contextList (pushPeriod s c' a) ! i) =
        BaseContext.repayment (baseContext eng)"
    if "isSavingsMode eng" and i: "i < length (contextList (pushPeriod s c' a))" for i
  proof (cases "i < n")
    case True
    then show ?thesis
      using inv that len by (simp add: pushPeriod_def nth_append)
  next
    case False
    with i len have "i = n" by (simp add: pushPeriod_def)
    moreover have "BaseContext.repayment c' = BaseContext.repayment (contextList s ! (n - 1))"
      using c' last that(1) by (simp add: specScheduledRepayment_def)
    moreover have "BaseContext.repayment (contextList s ! (n - 1)) =
        BaseContext.repayment (baseContext eng)"
      using inv that(1) len n by simp
    ultimately show ?thesis
      using len by (simp add: pushPeriod_def nth_append)
  qed
  show "(\<forall>i. 1 \<le> i \<and> i < length (contextList (pushPeriod s c' a)) \<longrightarrow>
            BaseContext.repayment (contextList (pushPeriod s c' a) ! i) =
              specScheduledRepayment eng i (contextList (pushPeriod s c' a) ! (i - 1))
                (contextList (pushPeriod s c' a) ! i)) \<and>
         (isSavingsMode eng \<longrightarrow>
            (\<forall>i < length (contextList (pushPeriod s c' a)).
               BaseContext.repayment (contextList (pushPeriod s c' a) ! i) =
                 BaseContext.repayment (baseContext eng)))"
    using rule sav by blast
qed

text \<open>
  C2. Every run returns, and in its context list the repayment stored for every period
  i from 1 on is the scheduled repayment of the specification: the repayment of the
  previous context, unless the run is in loan mode and i is 1 or the effective rate of
  the period differs from that of the previous context, in which case it is
  principal * effInterestRate for an interest-only loan and otherwise the annuity payment
  over effTerm - i + 1 periods. In savings mode every stored repayment is the repayment
  of the base context.
\<close>

theorem scheduled_repayment_rule:
  "\<exists>res. calculate eng = Inr res \<and>
     (\<forall>i. 1 \<le> i \<and> i < length (contextList res) \<longrightarrow>
        BaseContext.repayment (contextList res ! i) =
          specScheduledRepayment eng i (contextList res ! (i - 1)) (contextList res ! i)) \<and>
     (isSavingsMode eng \<longrightarrow>
        (\<forall>i < length (contextList res).
           BaseContext.repayment (contextList res ! i) =
             BaseContext.repayment (baseContext eng)))"
proof -
  from calculate_run [of eng] obtain st t ys where
    fin: "finalState eng st" and
    calc: "calculate eng = Inr (st\<lparr> totals := Some t, amortizationList := ys \<rparr>)"
    by blast
  have run: "loopState eng 0 st \<or> finalState eng st"
    using fin by blast
  let ?res = "st\<lparr> totals := Some t, amortizationList := ys \<rparr>"
  have "calculate eng = Inr ?res \<and>
     (\<forall>i. 1 \<le> i \<and> i < length (contextList ?res) \<longrightarrow>
        BaseContext.repayment (contextList ?res ! i) =
          specScheduledRepayment eng i (contextList ?res ! (i - 1)) (contextList ?res ! i)) \<and>
     (isSavingsMode eng \<longrightarrow>
        (\<forall>i < length (contextList ?res).
           BaseContext.repayment (contextList ?res ! i) =
             BaseContext.repayment (baseContext eng)))"
    using calc run_repayments [OF run] by simp
  then show ?thesis
    by blast
qed

theorem scheduled_repayment_rule_witness:
  "(\<exists>res. calculate feeEngine = Inr res \<and>
      BaseContext.repayment (contextList res ! 1) = 90 \<and>
      specScheduledRepayment feeEngine 1 (contextList res ! 0) (contextList res ! 1) = 90 \<and>
      BaseContext.repayment (contextList res ! 2) = 90 \<and>
      specScheduledRepayment feeEngine 2 (contextList res ! 1) (contextList res ! 2) = 90) \<and>
   (\<exists>res. calculate savingsEngine = Inr res \<and>
      map BaseContext.repayment (contextList res) = [10, 10, 10])"
proof -
  from scheduled_repayment_rule [where eng = feeEngine] obtain res where
    res: "calculate feeEngine = Inr res" and
    rule: "\<forall>i. 1 \<le> i \<and> i < length (contextList res) \<longrightarrow>
        BaseContext.repayment (contextList res ! i) =
          specScheduledRepayment feeEngine i (contextList res ! (i - 1)) (contextList res ! i)"
    by blast
  have len: "length (contextList res) = 3"
    and r1: "BaseContext.repayment (contextList res ! 1) = 90"
    and r2: "BaseContext.repayment (contextList res ! 2) = 90"
    using res by (auto simp add: feeEngine_run BaseContext.extend_def)
  have "specScheduledRepayment feeEngine 1 (contextList res ! 0) (contextList res ! 1) = 90"
    using rule [rule_format, of 1] len r1 by simp
  moreover
  have "specScheduledRepayment feeEngine 2 (contextList res ! 1) (contextList res ! 2) = 90"
    using rule [rule_format, of 2] len r2 by simp
  moreover
  have "map BaseContext.repayment (contextList savingsResult) = [10, 10, 10]"
    by (simp add: savingsResult_def savingsEngine_def BaseContext.extend_def)
  ultimately show ?thesis
    using res r1 r2 savingsEngine_run by auto
qed

subsection \<open>The annuity payment and the balance it leaves\<close>

lemma annuityPayment_power:
  assumes "0 < rate"
  shows "annuityPayment pv rate (real m) =
           pv * (rate * (1 + rate) ^ m) / ((1 + rate) ^ m - 1)"
  using assms by (simp add: annuityPayment_def powr_realpow)

lemma power_gt_one:
  assumes "0 < (rate :: real)" and "1 \<le> (m :: nat)"
  shows "1 < (1 + rate) ^ m"
  using assms by (simp add: one_less_power)

lemma annuityBalance_start:
  assumes "0 < rate" and "1 \<le> n"
  shows "annuityBalance pv rate n 0 = pv"
proof -
  have "(1 + rate) ^ n - 1 \<noteq> 0"
    using power_gt_one [OF assms] by simp
  then show ?thesis
    by (simp add: annuityBalance_def)
qed

lemma annuityBalance_end: "annuityBalance pv rate n n = 0"
  by (simp add: annuityBalance_def)

lemma annuityBalance_pos:
  assumes "0 < pv" and "0 < rate" and "k < n"
  shows "0 < annuityBalance pv rate n k"
proof -
  have "(1 + rate) ^ k < (1 + rate) ^ n"
    using assms by (simp add: power_strict_increasing)
  moreover have "1 < (1 + rate) ^ n"
    using assms power_gt_one [of rate n] by simp
  ultimately show ?thesis
    using assms(1) by (simp add: annuityBalance_def)
qed

lemma annuityBalance_step:
  assumes "0 < rate" and "1 \<le> n"
  shows "annuityBalance pv rate n k
           - (annuityPayment pv rate (real n) - annuityBalance pv rate n k * rate)
         = annuityBalance pv rate n (Suc k)"
proof -
  define D where "D = (1 + rate) ^ n - 1"
  define K where "K = (1 + rate) ^ k"
  have D: "D \<noteq> 0"
    using power_gt_one [OF assms] by (simp add: D_def)
  have Q: "(1 + rate) ^ n = D + 1"
    by (simp add: D_def)
  have "pv * (D + 1 - K) / D - (pv * (rate * (D + 1)) / D - pv * (D + 1 - K) / D * rate)
      = pv * (D + 1 - (1 + rate) * K) / D"
    using D by (simp add: field_simps)
  then show ?thesis
    by (simp add: annuityPayment_power [OF assms(1)] annuityBalance_def Q flip: D_def K_def)
qed

lemma annuityPayment_remaining:
  assumes "0 < rate" and "k < n"
  shows "annuityPayment (annuityBalance pv rate n k) rate (real (n - k)) =
           annuityPayment pv rate (real n)"
proof -
  have n: "1 \<le> n" and m: "1 \<le> n - k"
    using assms(2) by simp_all
  have D: "(1 + rate) ^ n - 1 \<noteq> 0"
    using power_gt_one [OF assms(1) n] by simp
  have E: "(1 + rate) ^ (n - k) - 1 \<noteq> 0"
    using power_gt_one [OF assms(1) m] by simp
  have split: "(1 + rate) ^ n = (1 + rate) ^ k * (1 + rate) ^ (n - k)"
    using assms(2) by (simp flip: power_add)
  have "annuityBalance pv rate n k =
      pv * (1 + rate) ^ k * ((1 + rate) ^ (n - k) - 1) / ((1 + rate) ^ n - 1)"
    unfolding annuityBalance_def by (subst split) (simp add: algebra_simps)
  then have "annuityPayment (annuityBalance pv rate n k) rate (real (n - k)) =
      pv * (1 + rate) ^ k * ((1 + rate) ^ (n - k) - 1) / ((1 + rate) ^ n - 1)
        * (rate * (1 + rate) ^ (n - k)) / ((1 + rate) ^ (n - k) - 1)"
    by (simp add: annuityPayment_power [OF assms(1)])
  also have "\<dots> = pv * (rate * ((1 + rate) ^ k * (1 + rate) ^ (n - k))) / ((1 + rate) ^ n - 1)"
    using E by simp
  also have "\<dots> = annuityPayment pv rate (real n)"
    by (simp add: annuityPayment_power [OF assms(1)] flip: split)
  finally show ?thesis .
qed

lemma annuityPayment_last:
  assumes "0 < rate" and "1 \<le> n"
  shows "annuityBalance pv rate n (n - 1) + annuityBalance pv rate n (n - 1) * rate =
           annuityPayment pv rate (real n)"
proof -
  have "annuityBalance pv rate n (n - 1)
           - (annuityPayment pv rate (real n) - annuityBalance pv rate n (n - 1) * rate)
         = annuityBalance pv rate n (Suc (n - 1))"
    by (rule annuityBalance_step [OF assms])
  with assms(2) show ?thesis
    by (simp add: annuityBalance_end)
qed

lemma annuityPayment_below_balance:
  assumes pv: "0 < pv" and rate: "0 < rate" and small: "rate\<^sup>2 + rate \<le> 1"
    and k: "Suc (Suc k) \<le> n"
  shows "annuityPayment pv rate (real n) \<le> annuityBalance pv rate n k"
proof -
  define q where "q = 1 + rate"
  have q: "1 < q" using rate by (simp add: q_def)
  have n: "1 \<le> n" using k by simp
  have D: "0 < q ^ n - 1"
    using power_gt_one [OF rate n] by (simp add: q_def)
  have two: "1 \<le> q\<^sup>2 * (1 - rate)"
  proof -
    have "q\<^sup>2 * (1 - rate) = 1 + rate * (1 - (rate\<^sup>2 + rate))"
      by (simp add: q_def power2_eq_square algebra_simps)
    moreover have "0 \<le> rate * (1 - (rate\<^sup>2 + rate))"
      using rate small by simp
    ultimately show ?thesis by simp
  qed
  define m where "m = n - 2"
  have nm: "n = m + 2" and km: "k \<le> m"
    using k by (simp_all add: m_def)
  have "q ^ k \<le> q ^ m"
    using q km by (simp add: power_increasing)
  also have "\<dots> = q ^ m * 1" by simp
  also have "\<dots> \<le> q ^ m * (q\<^sup>2 * (1 - rate))"
    using two q by (intro mult_left_mono) simp_all
  also have "\<dots> = q ^ n * (1 - rate)"
    by (simp add: nm power_add power2_eq_square)
  finally have "rate * q ^ n \<le> q ^ n - q ^ k"
    by (simp add: algebra_simps)
  then have "pv * (rate * q ^ n) \<le> pv * (q ^ n - q ^ k)"
    using pv by simp
  then have "pv * (rate * q ^ n) / (q ^ n - 1) \<le> pv * (q ^ n - q ^ k) / (q ^ n - 1)"
    using D by (simp add: divide_le_cancel)
  then show ?thesis
    by (simp add: annuityPayment_power [OF rate] annuityBalance_def q_def)
qed

subsection \<open>The legacy engine on an annuity loan\<close>

lemma legacyLoop_annuity:
  assumes same: "sameLoan old eng" and loan: "annuityLoan eng n"
    and k: "k \<le> n" and len: "length items = k"
    and bal: "1 \<le> k \<longrightarrow> principalFinalBalance (last items) =
        annuityBalance (principal (baseContext eng)) (effInterestRate (baseContext eng)) n k"
  shows "legacyLoop old (real n) (k + 1) items =
     items @ map (annuitySummary (principal (baseContext eng))
                    (effInterestRate (baseContext eng)) n) [k + 1..<n + 1]"
  using k len bal
proof (induction "n - k" arbitrary: k items)
  case 0
  then have "k = n" by simp
  then show ?case
    by (simp add: legacyLoop.simps [of old "real n" "Suc n"])
next
  case (Suc d)
  define pv where "pv = principal (baseContext eng)"
  define r where "r = effInterestRate (baseContext eng)"
  have r: "0 < r" and n: "1 \<le> n"
    using loan by (simp_all add: annuityLoan_def r_def)
  have kn: "k < n" using Suc.hyps(2) by simp
  have prev: "(if k + 1 > 1 \<and> items \<noteq> [] then principalFinalBalance (last items)
               else LoanContext.principal (legacyBaseContext old)) = annuityBalance pv r n k"
  proof (cases "k = 0")
    case True
    then show ?thesis
      using same annuityBalance_start [OF r n] Suc.prems
      by (simp add: sameLoan_def pv_def)
  next
    case False
    then have "items \<noteq> []" using Suc.prems by auto
    with False show ?thesis
      using Suc.prems by (simp add: pv_def r_def)
  qed
  have rate: "getEffInterestRate (getContextAt old (k + 1)) = r"
    using same by (simp add: sameLoan_def getContextAt_def flattenContext_def r_def)
  have left: "real n - real (k + 1) + 1 = real (n - k)"
    using kn by (simp add: of_nat_diff)
  have pay: "legacyPmt old (annuityBalance pv r n k) r (real (n - k)) =
      annuityPayment pv r (real n)"
    using same annuityPayment_remaining [OF r kn] by (simp add: sameLoan_def)
  define item where "item = annuitySummary pv r n (k + 1)"
  have unfold: "legacyLoop old (real n) (k + 1) items =
      legacyLoop old (real n) (k + 1 + 1) (items @ [item])"
    using kn prev rate left pay annuityBalance_step [OF r n, of pv k]
    by (subst legacyLoop.simps)
       (simp add: Let_def newLoanSummaryItem_def item_def annuitySummary_def)
  have "legacyLoop old (real n) (k + 1 + 1) (items @ [item]) =
      (items @ [item]) @ map (annuitySummary pv r n) [k + 1 + 1..<n + 1]"
    unfolding pv_def r_def
  proof (rule Suc.hyps(1))
    show "d = n - (k + 1)" using Suc.hyps(2) by simp
    show "k + 1 \<le> n" using kn by simp
    show "length (items @ [item]) = k + 1" using Suc.prems by simp
    show "1 \<le> k + 1 \<longrightarrow> principalFinalBalance (last (items @ [item])) =
        annuityBalance (principal (baseContext eng)) (effInterestRate (baseContext eng)) n (k + 1)"
      by (simp add: item_def annuitySummary_def pv_def r_def)
  qed
  also have "\<dots> = items @ map (annuitySummary pv r n) [k + 1..<n + 1]"
  proof -
    have "[k + 1..<n + 1] = (k + 1) # [k + 1 + 1..<n + 1]"
      using kn upt_conv_Cons [of "k + 1" "n + 1"] by simp
    then show ?thesis
      by (simp add: item_def)
  qed
  finally show ?case
    using unfold by (simp add: pv_def r_def)
qed

lemma legacyCalculate_annuity:
  assumes same: "sameLoan old eng" and loan: "annuityLoan eng n"
  shows "\<exists>t. legacyCalculate old =
     Inr \<lparr> summaryList = map (annuitySummary (principal (baseContext eng))
                               (effInterestRate (baseContext eng)) n) [1..<n + 1],
           legacyTotals = t \<rparr>"
proof -
  have tm: "getEffTerm (legacyBaseContext old) = real n" and n: "1 \<le> n"
    using same loan by (simp_all add: sameLoan_def annuityLoan_def)
  have "legacyLoop old (real n) (0 + 1) [] =
     [] @ map (annuitySummary (principal (baseContext eng))
                 (effInterestRate (baseContext eng)) n) [0 + 1..<n + 1]"
    by (rule legacyLoop_annuity [OF same loan]) simp_all
  then have items: "legacyLoop old (real n) 1 [] =
     map (annuitySummary (principal (baseContext eng))
            (effInterestRate (baseContext eng)) n) [1..<n + 1]"
    by simp
  define its where "its = legacyLoop old (real n) 1 []"
  have "its \<noteq> []"
    using items n by (simp add: its_def)
  then obtain x xs where xs: "its = x # xs"
    by (cases its) auto
  have "legacyCalculate old =
      Inr \<lparr> summaryList = its,
            legacyTotals = foldl legacySumTotals (LegacyTotalsItem x) (map LegacyTotalsItem xs) \<rparr>"
    unfolding legacyCalculate_def tm Let_def its_def [symmetric] xs by simp
  then show ?thesis
    using items by (simp add: its_def)
qed

subsection \<open>The engine on an annuity loan\<close>

lemma calculateAmortizationAt_result:
  assumes "contextList st \<noteq> []"
  shows "calculateAmortizationAt eng st per c =
     Inr (let scheduled = specScheduledRepayment eng per (last (contextList st)) c;
              adjusted = scheduled + orZero (effExtraRepayment c) + orZero (lumpSum c);
              interest = max ((principal c - orZero (offset c)) * effInterestRate c) 0;
              clamped = (if adjusted > principal c then principal c + interest else adjusted)
          in (c\<lparr> BaseContext.repayment := scheduled \<rparr>,
              \<lparr> period = periodValue per,
                principalBalance =
                  (if isSavingsMode eng then principal c + adjusted + interest
                   else principal c - (clamped - interest)),
                interestBalance = 0,
                interestPaid = interest,
                principalPaid = (if isSavingsMode eng then 0 else clamped - interest),
                repayment = (if isSavingsMode eng then adjusted else clamped)
                              + orZero (fee c) \<rparr>))"
  using assms
  by (simp add: calculateAmortizationAt_def specScheduledRepayment_def
      calculateRepayment_def Let_def)

lemma annuity_period:
  assumes loan: "annuityLoan eng n"
    and small: "n = 1 \<or> (effInterestRate (baseContext eng))\<^sup>2 + effInterestRate (baseContext eng) \<le> 1"
    and per: "1 \<le> per" "per \<le> n"
    and ne: "contextList s \<noteq> []" "amortizationList s \<noteq> []"
    and bal: "principalBalance (last (amortizationList s)) =
        annuityBalance (principal (baseContext eng)) (effInterestRate (baseContext eng)) n (per - 1)"
    and rate: "effInterestRate (last (contextList s)) = effInterestRate (baseContext eng)"
    and rep: "per \<noteq> 1 \<longrightarrow> BaseContext.repayment (last (contextList s)) =
        annuityPayment (principal (baseContext eng)) (effInterestRate (baseContext eng)) (real n)"
    and cx: "calculateContextAt eng s per = Inr c"
    and am: "calculateAmortizationAt eng s per c = Inr (c', a)"
  shows "a = annuityAmortization (principal (baseContext eng))
               (effInterestRate (baseContext eng)) n per \<and>
         effInterestRate c' = effInterestRate (baseContext eng) \<and>
         BaseContext.repayment c' =
           annuityPayment (principal (baseContext eng)) (effInterestRate (baseContext eng)) (real n)"
proof -
  define pv where "pv = principal (baseContext eng)"
  define r where "r = effInterestRate (baseContext eng)"
  define A where "A = annuityPayment pv r (real n)"
  define B where "B = annuityBalance pv r n (per - 1)"
  have pv: "0 < pv" and r: "0 < r" and n: "1 \<le> n"
    and tm: "effTerm (baseContext eng) = real n"
    and ops: "getOperatorsAt eng = (\<lambda>per. [])"
    and pay: "mathPmt eng = annuityPayment"
    and loanMode: "\<not> isSavingsMode eng"
    and ty: "repaymentType (baseContext eng) \<noteq> interestOnly"
    using loan by (simp_all add: annuityLoan_def pv_def r_def
        principalAndInterest_def interestOnly_def)
  have c: "c = (BaseContext.extend (baseContext eng)
               (ContextItem.fields (periodValue per) None None None None))
            \<lparr> principal := B \<rparr>"
    using cx bal by (simp add: calculateContextAt_eq [OF ne(2)] ops B_def pv_def r_def)
  have c_fields: "principal c = B" "effInterestRate c = r" "effTerm c = real n"
    "repaymentType c \<noteq> interestOnly" "effExtraRepayment c = None" "lumpSum c = None"
    "offset c = None" "fee c = None"
    using ty by (simp_all add: c BaseContext.extend_def ContextItem.fields_def r_def tm)
  have Bpos: "0 < B"
    using annuityBalance_pos [OF pv r, of "per - 1" n] per by (simp add: B_def)
  have first: "per = 1 \<Longrightarrow> B = pv"
    using annuityBalance_start [OF r n] by (simp add: B_def)
  have sched: "specScheduledRepayment eng per (last (contextList s)) c = A"
  proof (cases "per = 1")
    case True
    then show ?thesis
      using loanMode first c_fields
      by (simp add: specScheduledRepayment_def pay A_def)
  next
    case False
    then show ?thesis
      using rep rate c_fields by (simp add: specScheduledRepayment_def A_def pv_def r_def)
  qed
  have interest: "max (B * r) 0 = B * r"
    using Bpos r by simp
  have clamp: "(if A > B then B + B * r else A) = A"
  proof (cases "per = n")
    case True
    then show ?thesis
      using annuityPayment_last [OF r n, of pv] by (simp add: A_def B_def)
  next
    case False
    with per have "Suc (Suc (per - 1)) \<le> n" by simp
    moreover from False per small have "r\<^sup>2 + r \<le> 1" by (auto simp add: r_def)
    ultimately have "A \<le> B"
      using annuityPayment_below_balance [OF pv r] by (simp add: A_def B_def)
    then show ?thesis by simp
  qed
  have next_bal: "B - (A - B * r) = annuityBalance pv r n per"
    using annuityBalance_step [OF r n, of pv "per - 1"] per by (simp add: A_def B_def)
  from am have "c' = c\<lparr> BaseContext.repayment := A \<rparr> \<and>
      a = \<lparr> period = periodValue per, principalBalance = B - (A - B * r),
            interestBalance = 0, interestPaid = B * r, principalPaid = A - B * r,
            repayment = A \<rparr>"
    using loanMode
    by (simp add: calculateAmortizationAt_result [OF ne(1)] Let_def sched c_fields
        orZero_def interest clamp cong: if_cong)
  then have "c' = c\<lparr> BaseContext.repayment := A \<rparr> \<and>
      a = \<lparr> period = periodValue per, principalBalance = annuityBalance pv r n per,
            interestBalance = 0, interestPaid = B * r, principalPaid = A - B * r,
            repayment = A \<rparr>"
    using next_bal by simp
  then have "a = annuityAmortization pv r n per \<and> effInterestRate c' = r \<and>
      BaseContext.repayment c' = A"
    using c_fields by (simp add: annuityAmortization_def A_def B_def)
  then show ?thesis
    by (simp add: A_def pv_def r_def)
qed


lemma annuity_run:
  assumes loan: "annuityLoan eng n"
    and small: "n = 1 \<or> (effInterestRate (baseContext eng))\<^sup>2 + effInterestRate (baseContext eng) \<le> 1"
    and run: "loopState eng per st \<or> finalState eng st"
  shows "principalBalance (last (amortizationList st)) =
           annuityBalance (principal (baseContext eng)) (effInterestRate (baseContext eng)) n
             (length (amortizationList st) - 1) \<and>
         effInterestRate (last (contextList st)) = effInterestRate (baseContext eng) \<and>
         (length (contextList st) \<noteq> 1 \<longrightarrow>
            BaseContext.repayment (last (contextList st)) =
              annuityPayment (principal (baseContext eng)) (effInterestRate (baseContext eng))
                (real n)) \<and>
         (\<forall>i. 1 \<le> i \<and> i < length (amortizationList st) \<longrightarrow>
            amortizationList st ! i =
              annuityAmortization (principal (baseContext eng))
                (effInterestRate (baseContext eng)) n i)"
proof (rule run_invariant [OF run])
  fix st0 assume "startCalculation eng = Inr st0"
  moreover have "annuityBalance (principal (baseContext eng))
      (effInterestRate (baseContext eng)) n 0 = principal (baseContext eng)"
    using loan by (intro annuityBalance_start) (simp_all add: annuityLoan_def)
  ultimately show "principalBalance (last (amortizationList st0)) =
           annuityBalance (principal (baseContext eng)) (effInterestRate (baseContext eng)) n
             (length (amortizationList st0) - 1) \<and>
         effInterestRate (last (contextList st0)) = effInterestRate (baseContext eng) \<and>
         (length (contextList st0) \<noteq> 1 \<longrightarrow>
            BaseContext.repayment (last (contextList st0)) =
              annuityPayment (principal (baseContext eng)) (effInterestRate (baseContext eng))
                (real n)) \<and>
         (\<forall>i. 1 \<le> i \<and> i < length (amortizationList st0) \<longrightarrow>
            amortizationList st0 ! i =
              annuityAmortization (principal (baseContext eng))
                (effInterestRate (baseContext eng)) n i)"
    by (auto simp add: startCalculation_eq BaseContext.extend_def)
next
  fix m s c c' a
  assume ls: "loopState eng m s"
    and inv: "principalBalance (last (amortizationList s)) =
           annuityBalance (principal (baseContext eng)) (effInterestRate (baseContext eng)) n
             (length (amortizationList s) - 1) \<and>
         effInterestRate (last (contextList s)) = effInterestRate (baseContext eng) \<and>
         (length (contextList s) \<noteq> 1 \<longrightarrow>
            BaseContext.repayment (last (contextList s)) =
              annuityPayment (principal (baseContext eng)) (effInterestRate (baseContext eng))
                (real n)) \<and>
         (\<forall>i. 1 \<le> i \<and> i < length (amortizationList s) \<longrightarrow>
            amortizationList s ! i =
              annuityAmortization (principal (baseContext eng))
                (effInterestRate (baseContext eng)) n i)"
    and le: "real m \<le> effTerm (baseContext eng)"
    and cx: "calculateContextAt eng s m = Inr c"
    and am: "calculateAmortizationAt eng s m c = Inr (c', a)"
  have len: "length (contextList s) = m" "length (amortizationList s) = m" and m: "1 \<le> m"
    using loopState_lengths [OF ls] by simp_all
  have ne: "contextList s \<noteq> []" "amortizationList s \<noteq> []"
    using loopState_nonempty [OF ls] by simp_all
  have mn: "m \<le> n"
    using le loan by (simp add: annuityLoan_def)
  have new: "a = annuityAmortization (principal (baseContext eng))
               (effInterestRate (baseContext eng)) n m \<and>
         effInterestRate c' = effInterestRate (baseContext eng) \<and>
         BaseContext.repayment c' =
           annuityPayment (principal (baseContext eng)) (effInterestRate (baseContext eng)) (real n)"
    using inv len by (intro annuity_period [OF loan small m mn ne _ _ _ cx am]) simp_all
  have items: "amortizationList (pushPeriod s c' a) ! i =
        annuityAmortization (principal (baseContext eng)) (effInterestRate (baseContext eng)) n i"
    if i: "1 \<le> i \<and> i < length (amortizationList (pushPeriod s c' a))" for i
  proof (cases "i < m")
    case True
    then show ?thesis
      using inv i len by (simp add: pushPeriod_def nth_append)
  next
    case False
    with i len have "i = m" by (simp add: pushPeriod_def)
    then show ?thesis
      using new len by (simp add: pushPeriod_def nth_append)
  qed
  have "principalBalance (last (amortizationList (pushPeriod s c' a))) =
           annuityBalance (principal (baseContext eng)) (effInterestRate (baseContext eng)) n
             (length (amortizationList (pushPeriod s c' a)) - 1)"
    using new len by (simp add: pushPeriod_def annuityAmortization_def)
  moreover have "effInterestRate (last (contextList (pushPeriod s c' a))) =
      effInterestRate (baseContext eng)"
    using new by (simp add: pushPeriod_def)
  moreover have "BaseContext.repayment (last (contextList (pushPeriod s c' a))) =
      annuityPayment (principal (baseContext eng)) (effInterestRate (baseContext eng)) (real n)"
    using new by (simp add: pushPeriod_def)
  ultimately show "principalBalance (last (amortizationList (pushPeriod s c' a))) =
           annuityBalance (principal (baseContext eng)) (effInterestRate (baseContext eng)) n
             (length (amortizationList (pushPeriod s c' a)) - 1) \<and>
         effInterestRate (last (contextList (pushPeriod s c' a))) =
           effInterestRate (baseContext eng) \<and>
         (length (contextList (pushPeriod s c' a)) \<noteq> 1 \<longrightarrow>
            BaseContext.repayment (last (contextList (pushPeriod s c' a))) =
              annuityPayment (principal (baseContext eng)) (effInterestRate (baseContext eng))
                (real n)) \<and>
         (\<forall>i. 1 \<le> i \<and> i < length (amortizationList (pushPeriod s c' a)) \<longrightarrow>
            amortizationList (pushPeriod s c' a) ! i =
              annuityAmortization (principal (baseContext eng))
                (effInterestRate (baseContext eng)) n i)"
    using items by blast
qed

lemma annuity_final_length:
  assumes loan: "annuityLoan eng n"
    and small: "n = 1 \<or> (effInterestRate (baseContext eng))\<^sup>2 + effInterestRate (baseContext eng) \<le> 1"
    and fin: "finalState eng st"
  shows "length (amortizationList st) = n + 1"
proof -
  have run: "loopState eng 0 st \<or> finalState eng st"
    using fin by blast
  have floor: "nat \<lfloor>effTerm (baseContext eng)\<rfloor> = n" and loanMode: "\<not> isSavingsMode eng"
    and pv: "0 < principal (baseContext eng)" and r: "0 < effInterestRate (baseContext eng)"
    using loan by (simp_all add: annuityLoan_def)
  from finalState_exit [OF fin] floor loanMode obtain m where
    len: "length (amortizationList st) = m + 1" and mn: "m \<le> n" and
    early: "m < n \<longrightarrow> 1 \<le> m \<and> principalBalance (amortizationList st ! m) \<le> 0"
    by auto
  have "\<not> m < n"
  proof
    assume less: "m < n"
    with early have m: "1 \<le> m" and paid: "principalBalance (amortizationList st ! m) \<le> 0"
      by simp_all
    have "amortizationList st ! m =
        annuityAmortization (principal (baseContext eng)) (effInterestRate (baseContext eng)) n m"
      using annuity_run [OF loan small run] m len by simp
    then have "principalBalance (amortizationList st ! m) =
        annuityBalance (principal (baseContext eng)) (effInterestRate (baseContext eng)) n m"
      by (simp add: annuityAmortization_def)
    with annuityBalance_pos [OF pv r less] paid show False
      by simp
  qed
  with mn len show ?thesis by simp
qed

lemma plainEngine_run:
  "calculate plainEngine =
     Inr \<lparr> totals = Some (TotalsSum 180 80),
           contextList =
             [BaseContext.extend feeBase
                (ContextItem.fields (periodValue 0) None None None None),
              BaseContext.extend (feeBase\<lparr> BaseContext.repayment := 90 \<rparr>)
                (ContextItem.fields (periodValue 1) None None None None),
              BaseContext.extend (feeBase\<lparr> principal := 60, BaseContext.repayment := 90 \<rparr>)
                (ContextItem.fields (periodValue 2) None None None None)],
           amortizationList =
             [\<lparr> period = periodValue 0, principalBalance = 100, interestBalance = 80,
                interestPaid = 0, principalPaid = 0, repayment = 0 \<rparr>,
              \<lparr> period = periodValue 1, principalBalance = 60, interestBalance = 30,
                interestPaid = 50, principalPaid = 40, repayment = 90 \<rparr>,
              \<lparr> period = periodValue 2, principalBalance = 0, interestBalance = 0,
                interestPaid = 30, principalPaid = 60, repayment = 90 \<rparr>] \<rparr>"
  by (simp add: example_defs run_defs power_divide)

lemma plainLegacy_run:
  "legacyCalculate plainLegacy =
     Inr \<lparr> summaryList =
             [\<lparr> LoanSummaryItem.period = 1, principalInitialBalance = 100,
                principalFinalBalance = 60, LoanSummaryItem.interestPaid = 50,
                LoanSummaryItem.principalPaid = 40, pmt = 90 \<rparr>,
              \<lparr> LoanSummaryItem.period = 2, principalInitialBalance = 60,
                principalFinalBalance = 0, LoanSummaryItem.interestPaid = 30,
                LoanSummaryItem.principalPaid = 60, pmt = 90 \<rparr>],
           legacyTotals = LegacyTotalsSum 180 80 \<rparr>"
  by (simp add: example_defs legacy_defs power_divide)

lemma steepEngine_run: "calculate steepEngine = Inr steepResult"
  by (simp add: steepResult_def example_defs run_defs)

lemma steepLegacy_run: "legacyCalculate steepLegacy = Inr steepLegacyResult"
  by (simp add: steepLegacyResult_def example_defs legacy_defs)


text \<open>
  On an annuity loan the payment never exceeds principal + interestPaid before the loan
  is paid off, so a payoff cap that tests against principal + interestPaid leaves the
  schedule alone in every period, whatever the rate.
\<close>

lemma annuityPayment_within_payoff:
  assumes pv: "0 < pv" and rate: "0 < rate" and k: "k < n"
  shows "annuityPayment pv rate (real n) \<le>
           annuityBalance pv rate n k + annuityBalance pv rate n k * rate"
proof -
  have n: "1 \<le> n" using k by simp
  have "0 \<le> annuityBalance pv rate n (Suc k)"
  proof (cases "Suc k < n")
    case True
    then show ?thesis
      using annuityBalance_pos [OF pv rate True] by simp
  next
    case False
    with k have "Suc k = n" by simp
    then show ?thesis
      using annuityBalance_end [of pv rate n] by simp
  qed
  with annuityBalance_step [OF rate n, of pv k] show ?thesis
    by simp
qed

text \<open>
  Where the payment never exceeds the principal alone before the last period either,
  that is where the rate r per period satisfies r * r + r <= 1 or the loan has a single
  period, the guard of the engine does no harm: on a loan-mode run on a
  principal-and-interest loan with a positive principal, a positive rate and a whole
  effTerm of n periods, no operators, and the legacy engine on the same principal, rate
  and term, both engines return, with n periods after period 0, and for every period
  from 1 to n the repayment equals the legacy pmt and the interestPaid, the
  principalPaid and the closing balance are equal.
\<close>

lemma engines_agree_below_threshold:
  assumes "annuityLoan eng n" and "sameLoan old eng"
    and "n = 1 \<or> (effInterestRate (baseContext eng))\<^sup>2 + effInterestRate (baseContext eng) \<le> 1"
  shows "\<exists>res leg. calculate eng = Inr res \<and> legacyCalculate old = Inr leg \<and>
     length (amortizationList res) = n + 1 \<and> length (summaryList leg) = n \<and>
     (\<forall>i. 1 \<le> i \<and> i \<le> n \<longrightarrow>
        repayment (amortizationList res ! i) = pmt (summaryList leg ! (i - 1)) \<and>
        interestPaid (amortizationList res ! i) =
          LoanSummaryItem.interestPaid (summaryList leg ! (i - 1)) \<and>
        principalPaid (amortizationList res ! i) =
          LoanSummaryItem.principalPaid (summaryList leg ! (i - 1)) \<and>
        principalBalance (amortizationList res ! i) =
          principalFinalBalance (summaryList leg ! (i - 1)))"
proof -
  define pv where "pv = principal (baseContext eng)"
  define r where "r = effInterestRate (baseContext eng)"
  from calculate_run [of eng] obtain st t where
    fin: "finalState eng st" and
    calc: "calculate eng =
       Inr (st\<lparr> totals := Some t,
               amortizationList :=
                 interestBalancePass (isSavingsMode eng)
                   (if isSavingsMode eng then 0
                    else sum_list (map interestPaid (amortizationList st)))
                   (amortizationList st) \<rparr>)"
    by blast
  define ys where "ys = interestBalancePass (isSavingsMode eng)
                   (if isSavingsMode eng then 0
                    else sum_list (map interestPaid (amortizationList st)))
                   (amortizationList st)"
  define res where "res = st\<lparr> totals := Some t, amortizationList := ys \<rparr>"
  have run: "loopState eng 0 st \<or> finalState eng st"
    using fin by blast
  have len: "length (amortizationList st) = n + 1"
    using annuity_final_length [OF assms(1) assms(3) fin] .
  have ylen: "length ys = n + 1"
    using len by (simp add: ys_def)
  have item: "amortizationList st ! i = annuityAmortization pv r n i"
    if "1 \<le> i \<and> i \<le> n" for i
    using annuity_run [OF assms(1) assms(3) run] that len by (simp add: pv_def r_def)
  have fields: "repayment (ys ! i) = repayment (amortizationList st ! i) \<and>
      interestPaid (ys ! i) = interestPaid (amortizationList st ! i) \<and>
      principalPaid (ys ! i) = principalPaid (amortizationList st ! i) \<and>
      principalBalance (ys ! i) = principalBalance (amortizationList st ! i)"
    if "i \<le> n" for i
  proof -
    have i: "i < length (amortizationList st)" "i < length ys"
      using that len ylen by simp_all
    have "map repayment ys ! i = map repayment (amortizationList st) ! i"
      "map interestPaid ys ! i = map interestPaid (amortizationList st) ! i"
      "map principalPaid ys ! i = map principalPaid (amortizationList st) ! i"
      "map principalBalance ys ! i = map principalBalance (amortizationList st) ! i"
      by (simp_all add: ys_def interestBalancePass_fields)
    with i show ?thesis by simp
  qed
  from legacyCalculate_annuity [OF assms(2) assms(1)] obtain lt where
    leg: "legacyCalculate old =
      Inr \<lparr> summaryList = map (annuitySummary pv r n) [1..<n + 1], legacyTotals = lt \<rparr>"
    by (auto simp add: pv_def r_def)
  define old_res where
    "old_res = \<lparr> summaryList = map (annuitySummary pv r n) [1..<n + 1], legacyTotals = lt \<rparr>"
  have summary: "summaryList old_res ! (i - 1) = annuitySummary pv r n i"
    if "1 \<le> i \<and> i \<le> n" for i
  proof -
    have "i - 1 < length [1..<n + 1]"
      using that by auto
    then have "map (annuitySummary pv r n) [1..<n + 1] ! (i - 1) =
        annuitySummary pv r n ([1..<n + 1] ! (i - 1))"
      by (rule nth_map)
    moreover have "[1..<n + 1] ! (i - 1) = i"
    proof -
      have "1 + (i - 1) < n + 1"
        using that by auto
      then have "[1..<n + 1] ! (i - 1) = 1 + (i - 1)"
        by (rule nth_upt)
      with that show ?thesis by auto
    qed
    ultimately show ?thesis
      by (simp add: old_res_def)
  qed
  have agree: "repayment (amortizationList res ! i) = pmt (summaryList old_res ! (i - 1)) \<and>
        interestPaid (amortizationList res ! i) =
          LoanSummaryItem.interestPaid (summaryList old_res ! (i - 1)) \<and>
        principalPaid (amortizationList res ! i) =
          LoanSummaryItem.principalPaid (summaryList old_res ! (i - 1)) \<and>
        principalBalance (amortizationList res ! i) =
          principalFinalBalance (summaryList old_res ! (i - 1))"
    if i: "1 \<le> i \<and> i \<le> n" for i
  proof -
    have "i \<le> n" using i by simp
    from fields [OF this] item [OF i] summary [OF i] show ?thesis
      by (simp add: res_def annuityAmortization_def annuitySummary_def)
  qed
  have "calculate eng = Inr res \<and> legacyCalculate old = Inr old_res \<and>
     length (amortizationList res) = n + 1 \<and> length (summaryList old_res) = n"
    using calc leg ylen by (simp add: res_def ys_def old_res_def)
  with agree show ?thesis
    by blast
qed

lemma engines_agree_plain_loan:
  "annuityLoan plainEngine 2 \<and> sameLoan plainLegacy plainEngine \<and>
   (effInterestRate (baseContext plainEngine))\<^sup>2 + effInterestRate (baseContext plainEngine) \<le> 1 \<and>
   (\<exists>res leg. calculate plainEngine = Inr res \<and> legacyCalculate plainLegacy = Inr leg \<and>
      length (amortizationList res) = 3 \<and> length (summaryList leg) = 2 \<and>
      repayment (amortizationList res ! 1) = 90 \<and> pmt (summaryList leg ! 0) = 90 \<and>
      repayment (amortizationList res ! 2) = 90 \<and> pmt (summaryList leg ! 1) = 90 \<and>
      principalBalance (amortizationList res ! 2) = 0 \<and>
      principalFinalBalance (summaryList leg ! 1) = 0)"
proof -
  have loan: "annuityLoan plainEngine 2"
    by (simp add: annuityLoan_def plainEngine_def feeBase_def)
  have same: "sameLoan plainLegacy plainEngine"
    by (simp add: sameLoan_def plainEngine_def plainLegacy_def feeBase_def
        getEffInterestRate_def getEffTerm_def)
  have small: "(effInterestRate (baseContext plainEngine))\<^sup>2
      + effInterestRate (baseContext plainEngine) \<le> 1"
    by (simp add: plainEngine_def feeBase_def power_divide)
  from engines_agree_below_threshold [OF loan same disjI2 [OF small]] loan same small show ?thesis
    by (simp add: plainEngine_run plainLegacy_run)
qed

text \<open>
  C10. The claim is what the legacy engine computes, and the engine misses it through
  the guard of its payoff cap, which tests the repayment against the principal alone and
  leaves interestPaid out. On a loan of 300 at 100 percent per period over 2 periods,
  with no operators, the annuity payment is 400. The legacy engine pays 400 in each of the two periods. The engine
  finds 400 above the principal of 300 in period 1, although it is below
  principal + interestPaid = 600, raises the repayment to 600, and leaves the loop after
  that period: its run has no period 2.
\<close>

theorem engines_diverge_on_steep_loan:
  "annuityLoan steepEngine 2 \<and> sameLoan steepLegacy steepEngine \<and>
   calculate steepEngine = Inr steepResult \<and>
   legacyCalculate steepLegacy = Inr steepLegacyResult \<and>
   repayment (amortizationList steepResult ! 1) = 600 \<and>
   pmt (summaryList steepLegacyResult ! 0) = 400 \<and>
   length (amortizationList steepResult) = 2 \<and>
   length (summaryList steepLegacyResult) = 2"
proof -
  have "annuityLoan steepEngine 2"
    by (simp add: annuityLoan_def steepEngine_def)
  moreover have "sameLoan steepLegacy steepEngine"
    by (simp add: sameLoan_def steepEngine_def steepLegacy_def
        getEffInterestRate_def getEffTerm_def)
  ultimately show ?thesis
    by (simp add: steepEngine_run steepLegacy_run) (simp add: steepResult_def steepLegacyResult_def)
qed

end
